theory Spec2Isabelle
  imports Complex_Main
begin

section \<open>JavaScript values as the proxy sees them\<close>

text \<open>
  The proxy (\<^verbatim>\<open>src/proxy.ts\<close>) handles values that come out of \<^verbatim>\<open>JSON.parse\<close> or that it
  builds itself as object literals.  Such a value is \<^verbatim>\<open>null\<close>, a boolean, a number, a
  string, an array or a plain object; \<^verbatim>\<open>undefined\<close> is the missing value of
  \<^typ>\<open>'a option\<close>.  An object is the list of its own properties; a property is read by
  its first entry and written in place (or appended when new).  The numbers in such a
  value are the integer ones (ids and error codes): the proxy only compares them with
  \<^verbatim>\<open>undefined\<close> and tests their truthiness.  The numbers that the proxy computes with,
  those of the retry policy, are the subject of a section of their own.  A string is the
  list of its code units, each a \<^typ>\<open>char\<close>.
\<close>

datatype json =
    JNull
  | JBool bool
  | JNum int
  | JStr string
  | JArr "json list"
  | JObj "(string \<times> json) list"

text \<open>
  Everything the code can throw is an \<^verbatim>\<open>Error\<close> object with a message.  The wording of
  the messages of \<^verbatim>\<open>SyntaxError\<close> and \<^verbatim>\<open>TypeError\<close> belongs to the engine.
\<close>

datatype exn = SyntaxError string | TypeError string | Error string

fun exn_message :: "exn \<Rightarrow> string" where
  "exn_message (SyntaxError m) = m"
| "exn_message (TypeError m) = m"
| "exn_message (Error m) = m"

text \<open>\<^verbatim>\<open>`${error}`\<close>: the name of the error, a colon and its message.\<close>

fun exn_to_string :: "exn \<Rightarrow> string" where
  "exn_to_string (SyntaxError m) = ''SyntaxError: '' @ m"
| "exn_to_string (TypeError m) = ''TypeError: '' @ m"
| "exn_to_string (Error m) = ''Error: '' @ m"

text \<open>A computation that may throw: \<open>Inl\<close> is the exception.\<close>

definition bindE :: "exn + 'a \<Rightarrow> ('a \<Rightarrow> exn + 'b) \<Rightarrow> exn + 'b" where
  "bindE m f = (case m of Inl e \<Rightarrow> Inl e | Inr x \<Rightarrow> f x)"

fun truthy :: "json \<Rightarrow> bool" where
  "truthy JNull = False"
| "truthy (JBool b) = b"
| "truthy (JNum n) = (n \<noteq> 0)"
| "truthy (JStr s) = (s \<noteq> [])"
| "truthy (JArr xs) = True"
| "truthy (JObj kvs) = True"

fun truthy_opt :: "json option \<Rightarrow> bool" where
  "truthy_opt None = False"
| "truthy_opt (Some v) = truthy v"

text \<open>\<^verbatim>\<open>a || b\<close>.\<close>

definition or_else :: "json option \<Rightarrow> json option \<Rightarrow> json option" where
  "or_else a b = (if truthy_opt a then a else b)"

text \<open>\<^verbatim>\<open>a || d\<close> where \<open>d\<close> is a literal, so that the result is defined.\<close>

definition or_default :: "json option \<Rightarrow> json \<Rightarrow> json" where
  "or_default a d = (case a of None \<Rightarrow> d | Some v \<Rightarrow> if truthy v then v else d)"

fun typeof :: "json option \<Rightarrow> string" where
  "typeof None = ''undefined''"
| "typeof (Some JNull) = ''object''"
| "typeof (Some (JBool b)) = ''boolean''"
| "typeof (Some (JNum n)) = ''number''"
| "typeof (Some (JStr s)) = ''string''"
| "typeof (Some (JArr xs)) = ''object''"
| "typeof (Some (JObj kvs)) = ''object''"

fun Array_isArray :: "json \<Rightarrow> bool" where
  "Array_isArray (JArr xs) = True"
| "Array_isArray JNull = False"
| "Array_isArray (JBool b) = False"
| "Array_isArray (JNum n) = False"
| "Array_isArray (JStr s) = False"
| "Array_isArray (JObj kvs) = False"

text \<open>
  \<^verbatim>\<open>v.k\<close> for the property names the proxy reads (\<^verbatim>\<open>id\<close>, \<^verbatim>\<open>method\<close>, \<^verbatim>\<open>params\<close>,
  \<^verbatim>\<open>jsonrpc\<close>, \<^verbatim>\<open>result\<close>, \<^verbatim>\<open>error\<close>, \<^verbatim>\<open>message\<close>, \<^verbatim>\<open>exception\<close>, \<^verbatim>\<open>file\<close>, \<^verbatim>\<open>line\<close>,
  \<^verbatim>\<open>trace\<close>): none of them is an index, \<^verbatim>\<open>length\<close> or a property of a prototype, so
  only a plain object can have one.  Reading a property of \<^verbatim>\<open>null\<close> throws.
\<close>

fun get_prop :: "json \<Rightarrow> string \<Rightarrow> exn + json option" where
  "get_prop JNull k = Inl (TypeError (''Cannot read properties of null (reading '' @ k @ '')''))"
| "get_prop (JObj kvs) k = Inr (map_of kvs k)"
| "get_prop (JBool b) k = Inr None"
| "get_prop (JNum n) k = Inr None"
| "get_prop (JStr s) k = Inr None"
| "get_prop (JArr xs) k = Inr None"

text \<open>
  The conversion of a value to a string, as a template literal does it, throws for an
  object with an own property \<^verbatim>\<open>toString\<close>: a value that comes out of \<^verbatim>\<open>JSON.parse\<close> is
  never a function, so that neither this property nor the inherited \<^verbatim>\<open>valueOf\<close> gives a
  primitive value.  An array converts its elements, and throws when one of them does;
  every other value has a string.
\<close>

fun ToString_throws :: "json \<Rightarrow> bool" where
  "ToString_throws (JObj kvs) = (map_of kvs ''toString'' \<noteq> None)"
| "ToString_throws (JArr xs) = list_ex ToString_throws xs"
| "ToString_throws JNull = False"
| "ToString_throws (JBool b) = False"
| "ToString_throws (JNum n) = False"
| "ToString_throws (JStr t) = False"

section \<open>The error normalizer\<close>

text \<open>
  \<^verbatim>\<open>isValidJsonRpcResponse\<close> (proxy.ts, 296--318).
\<close>

definition phpErrorFields :: "string list" where
  "phpErrorFields = [''message'', ''exception'', ''file'', ''line'', ''trace'']"

definition isValidJsonRpcResponse :: "json \<Rightarrow> exn + bool" where
  "isValidJsonRpcResponse data =
     (if \<not> truthy data \<or> typeof (Some data) \<noteq> ''object'' then Inr False
      else bindE (get_prop data ''jsonrpc'') (\<lambda>jsonrpc.
        if jsonrpc \<noteq> Some (JStr ''2.0'') then Inr False
        else bindE (get_prop data ''result'') (\<lambda>result.
             bindE (get_prop data ''error'') (\<lambda>error.
          if result = None \<and> error = None then Inr False
          else
            let hasPhpErrorFields = list_ex (\<lambda>field.
                  case get_prop data field of
                    Inl e \<Rightarrow> False
                  | Inr v \<Rightarrow> v \<noteq> None \<and> typeof v = ''string''
                             \<and> \<not> truthy_opt result \<and> \<not> truthy_opt error) phpErrorFields
            in Inr (\<not> hasPhpErrorFields)))))"

text \<open>
  \<^verbatim>\<open>convertServerErrorToJsonRpc\<close> (proxy.ts, 320--393): the body of its \<^verbatim>\<open>try\<close>, then the
  function with its \<^verbatim>\<open>catch\<close>.
\<close>

definition convertServerErrorToJsonRpc_try :: "string \<Rightarrow> json \<Rightarrow> exn + json" where
  "convertServerErrorToJsonRpc_try responseData parsed =
     bindE (if truthy parsed
            then bindE (get_prop parsed ''id'') (\<lambda>i. Inr (case i of None \<Rightarrow> JNull | Some v \<Rightarrow> v))
            else Inr JNull) (\<lambda>requestId.
       let generic = JObj [(''jsonrpc'', JStr ''2.0''), (''id'', requestId),
             (''error'', JObj [(''code'', JNum (- 32603)),
                (''message'', JStr ''Invalid server response''),
                (''data'', JObj [(''type'', JStr ''malformed_response''),
                                 (''original'', JStr (take 200 responseData))])])]
       in
       if truthy parsed \<and> typeof (Some parsed) = ''object'' then
         bindE (get_prop parsed ''message'') (\<lambda>message.
         bindE (get_prop parsed ''exception'') (\<lambda>exception.
           if truthy_opt (or_else message exception) then
             Inr (JObj [(''jsonrpc'', JStr ''2.0''), (''id'', requestId),
               (''error'', JObj [(''code'', JNum (- 32603)),
                  (''message'', or_default message (JStr ''Server internal error'')),
                  (''data'', JObj [(''type'', JStr ''server_error''),
                     (''details'', or_default (or_else exception message)
                                      (JStr ''Unknown server error''))])])])
           else if Array_isArray parsed then
             Inr (JObj [(''jsonrpc'', JStr ''2.0''), (''id'', requestId),
               (''error'', JObj [(''code'', JNum (- 32600)),
                  (''message'', JStr ''Server validation error''),
                  (''data'', JObj [(''type'', JStr ''validation_error''),
                                   (''details'', parsed)])])])
           else Inr generic))
       else Inr generic)"

definition convertServerErrorToJsonRpc :: "string \<Rightarrow> json \<Rightarrow> json" where
  "convertServerErrorToJsonRpc responseData parsed =
     (case convertServerErrorToJsonRpc_try responseData parsed of
        Inr r \<Rightarrow> r
      | Inl e \<Rightarrow>
          JObj [(''jsonrpc'', JStr ''2.0''), (''id'', JNull),
            (''error'', JObj [(''code'', JNum (- 32700)),
               (''message'', JStr ''Invalid JSON response from server''),
               (''data'', JObj [(''type'', JStr ''parse_error''),
                                (''original'', JStr (take 200 responseData))])])])"

section \<open>Strings\<close>

text \<open>\<^verbatim>\<open>s.startsWith(p)\<close>, \<^verbatim>\<open>s.includes(t)\<close> and \<^verbatim>\<open>s.trim()\<close>.\<close>

definition startsWith :: "string \<Rightarrow> string \<Rightarrow> bool" where
  "startsWith s p = (take (length p) s = p)"

fun str_includes :: "string \<Rightarrow> string \<Rightarrow> bool" where
  "str_includes [] t = (t = [])"
| "str_includes (c # cs) t = (startsWith (c # cs) t \<or> str_includes cs t)"

text \<open>The white space of \<^verbatim>\<open>trim\<close> among the code units below 256.\<close>

definition is_ws :: "char \<Rightarrow> bool" where
  "is_ws c = (c = CHR 0x09 \<or> c = CHR 0x0A \<or> c = CHR 0x0B \<or> c = CHR 0x0C \<or> c = CHR 0x0D
              \<or> c = CHR 0x20 \<or> c = CHR 0xA0)"

definition trim :: "string \<Rightarrow> string" where
  "trim s = rev (dropWhile is_ws (rev (dropWhile is_ws s)))"

text \<open>
  \<^verbatim>\<open>s.split('\n')\<close> and \<^verbatim>\<open>s.split('\n\n')\<close>: the pieces between the occurrences of the
  separator, found from the left; the empty string gives one empty piece.
\<close>

fun split_lines :: "string \<Rightarrow> string list" where
  "split_lines [] = [[]]"
| "split_lines (c # cs) =
     (if c = CHR 0x0A then [] # split_lines cs
      else (case split_lines cs of [] \<Rightarrow> [[c]] | l # ls \<Rightarrow> (c # l) # ls))"

fun split_blank :: "string \<Rightarrow> string list" where
  "split_blank [] = [[]]"
| "split_blank [a] = [[a]]"
| "split_blank (a # b # cs) =
     (if a = CHR 0x0A \<and> b = CHR 0x0A then [] # split_blank cs
      else (case split_blank (b # cs) of [] \<Rightarrow> [[a]] | p # ps \<Rightarrow> (a # p) # ps))"

section \<open>Promises\<close>

text \<open>
  A promise is pending until the first call of \<^verbatim>\<open>resolve\<close> or \<^verbatim>\<open>reject\<close>; later calls
  change nothing.  An \<^verbatim>\<open>await\<close> on a promise that stays pending never resumes.
\<close>

datatype 'a settle = Pending | Resolved 'a | Rejected exn

fun resolve :: "'a \<Rightarrow> 'a settle \<Rightarrow> 'a settle" where
  "resolve v Pending = Resolved v"
| "resolve v (Resolved w) = Resolved w"
| "resolve v (Rejected e) = Rejected e"

fun reject :: "exn \<Rightarrow> 'a settle \<Rightarrow> 'a settle" where
  "reject e Pending = Rejected e"
| "reject e (Resolved w) = Resolved w"
| "reject e (Rejected e') = Rejected e'"

section \<open>The transport dispatcher\<close>

text \<open>
  A chunk of a body is the string that \<^verbatim>\<open>chunk.toString()\<close> gives.  The body ends by the
  event \<^verbatim>\<open>end\<close>, or by a failure that rejects the promise: the event \<^verbatim>\<open>error\<close> of the
  response, or the timeout of the request while the body arrives.
\<close>

datatype stream_end = End | StreamError exn

text \<open>
  \<^verbatim>\<open>handleJSONResponse\<close> (proxy.ts, 265--294).  \<^verbatim>\<open>JSON.parse\<close> is the runtime's: it is
  the parameter \<open>parse\<close>.
\<close>

definition handleJSONResponse ::
  "(string \<Rightarrow> exn + json) \<Rightarrow> string list \<Rightarrow> stream_end \<Rightarrow> json settle" where
  "handleJSONResponse parse chunks fin =
     (let data = concat chunks in
      case fin of
        StreamError error \<Rightarrow> Rejected error
      | End \<Rightarrow>
         (case bindE (parse data) (\<lambda>parsed.
                bindE (isValidJsonRpcResponse parsed) (\<lambda>valid.
                  Inr (if valid then parsed
                       else convertServerErrorToJsonRpc data parsed))) of
            Inr response \<Rightarrow> Resolved response
          | Inl error \<Rightarrow> Resolved (convertServerErrorToJsonRpc data JNull)))"

text \<open>\<^verbatim>\<open>parseSSEEvent\<close> (proxy.ts, 395--409).\<close>

record SSEEvent =
  eventType :: string
  eventData :: string

definition parseSSEEvent :: "string \<Rightarrow> SSEEvent" where
  "parseSSEEvent data =
     foldl (\<lambda>ev line.
        if startsWith line ''data: '' then ev\<lparr>eventData := eventData ev @ drop 6 line\<rparr>
        else if startsWith line ''event: '' then ev\<lparr>eventType := drop 7 line\<rparr>
        else ev)
       \<lparr>eventType = [], eventData = []\<rparr> (split_lines data)"

text \<open>
  \<^verbatim>\<open>handleSSEResponse\<close> (proxy.ts, 222--263): the buffer, the promise of the surrounding
  \<^verbatim>\<open>sendToServer\<close> and what \<^verbatim>\<open>logError\<close> has printed.  \<open>sse_event\<close> is the body of the
  \<^verbatim>\<open>forEach\<close>, \<open>sse_on_data\<close> and \<open>sse_on_end\<close> are the two listeners.
\<close>

record sse_state =
  buffer :: string
  promise :: "json settle"
  logged :: "string list"

definition sse_event :: "(string \<Rightarrow> exn + json) \<Rightarrow> sse_state \<Rightarrow> string \<Rightarrow> sse_state" where
  "sse_event parse st block =
     (if trim block \<noteq> [] then
        (let event = parseSSEEvent block in
         if eventData event \<noteq> [] then
           (case parse (eventData event) of
              Inr parsed \<Rightarrow> st\<lparr>promise := resolve parsed (promise st)\<rparr>
            | Inl error \<Rightarrow>
                st\<lparr>logged := logged st @ [''Invalid JSON in SSE: '' @ exn_to_string error]\<rparr>)
         else st)
      else st)"

definition sse_on_data :: "(string \<Rightarrow> exn + json) \<Rightarrow> sse_state \<Rightarrow> string \<Rightarrow> sse_state" where
  "sse_on_data parse st chunk =
     (let events = split_blank (buffer st @ chunk) in
      foldl (sse_event parse)
        (st\<lparr>buffer := (if events = [] then [] else last events)\<rparr>) (butlast events))"

definition sse_on_end :: "(string \<Rightarrow> exn + json) \<Rightarrow> sse_state \<Rightarrow> sse_state" where
  "sse_on_end parse st =
     (if trim (buffer st) \<noteq> [] then
        (let event = parseSSEEvent (buffer st) in
         if eventData event \<noteq> [] then
           (case parse (eventData event) of
              Inr parsed \<Rightarrow> st\<lparr>promise := resolve parsed (promise st)\<rparr>
            | Inl error \<Rightarrow>
                st\<lparr>promise := reject (Error (''Invalid JSON in final SSE: ''
                                               @ exn_to_string error)) (promise st)\<rparr>)
         else st)
      else st)"

definition handleSSEResponse ::
  "(string \<Rightarrow> exn + json) \<Rightarrow> string list \<Rightarrow> stream_end \<Rightarrow> sse_state" where
  "handleSSEResponse parse chunks fin =
     (let st = foldl (sse_on_data parse) \<lparr>buffer = [], promise = Pending, logged = []\<rparr> chunks in
      case fin of
        End \<Rightarrow> sse_on_end parse st
      | StreamError error \<Rightarrow> st\<lparr>promise := reject error (promise st)\<rparr>)"

section \<open>Numbers\<close>

text \<open>
  A number of the engine is a double: a real number that the format represents, one of
  the two infinities, or \<^verbatim>\<open>NaN\<close>.  (The negative zero, which no comparison tells from
  zero, is the number 0.)  An arithmetic operation on two finite numbers gives the exact
  result rounded to the format; the rounding is the parameter \<open>rnd\<close> of the operations,
  a function from the real numbers to the numbers.  On the other operands the operations
  are as the standard fixes them: \<open>0 * Infinity\<close> and \<open>Infinity - Infinity\<close> are
  \<^verbatim>\<open>NaN\<close>, and an operation on \<^verbatim>\<open>NaN\<close> gives \<^verbatim>\<open>NaN\<close>.
\<close>

datatype number = NaN | NegInf | Fin real | PosInf

fun negate :: "number \<Rightarrow> number" where
  "negate NaN = NaN"
| "negate NegInf = PosInf"
| "negate (Fin x) = Fin (- x)"
| "negate PosInf = NegInf"

text \<open>\<^verbatim>\<open>a * b\<close>, \<^verbatim>\<open>a + b\<close> and \<^verbatim>\<open>a - b\<close>.\<close>

fun number_times :: "(real \<Rightarrow> number) \<Rightarrow> number \<Rightarrow> number \<Rightarrow> number" where
  "number_times rnd (Fin x) (Fin y) = rnd (x * y)"
| "number_times rnd NaN b = NaN"
| "number_times rnd a NaN = NaN"
| "number_times rnd (Fin x) PosInf = (if x = 0 then NaN else if 0 < x then PosInf else NegInf)"
| "number_times rnd (Fin x) NegInf = (if x = 0 then NaN else if 0 < x then NegInf else PosInf)"
| "number_times rnd PosInf (Fin y) = (if y = 0 then NaN else if 0 < y then PosInf else NegInf)"
| "number_times rnd NegInf (Fin y) = (if y = 0 then NaN else if 0 < y then NegInf else PosInf)"
| "number_times rnd PosInf PosInf = PosInf"
| "number_times rnd PosInf NegInf = NegInf"
| "number_times rnd NegInf PosInf = NegInf"
| "number_times rnd NegInf NegInf = PosInf"

fun number_plus :: "(real \<Rightarrow> number) \<Rightarrow> number \<Rightarrow> number \<Rightarrow> number" where
  "number_plus rnd (Fin x) (Fin y) = rnd (x + y)"
| "number_plus rnd NaN b = NaN"
| "number_plus rnd a NaN = NaN"
| "number_plus rnd PosInf NegInf = NaN"
| "number_plus rnd NegInf PosInf = NaN"
| "number_plus rnd PosInf b = PosInf"
| "number_plus rnd NegInf b = NegInf"
| "number_plus rnd (Fin x) PosInf = PosInf"
| "number_plus rnd (Fin x) NegInf = NegInf"

definition number_minus :: "(real \<Rightarrow> number) \<Rightarrow> number \<Rightarrow> number \<Rightarrow> number" where
  "number_minus rnd a b = number_plus rnd a (negate b)"

text \<open>\<^verbatim>\<open>a <= b\<close>, which is false when an operand is \<^verbatim>\<open>NaN\<close>; \<^verbatim>\<open>a >= b\<close> is \<open>number_le b a\<close>.\<close>

fun number_le :: "number \<Rightarrow> number \<Rightarrow> bool" where
  "number_le NaN b = False"
| "number_le a NaN = False"
| "number_le NegInf b = True"
| "number_le a PosInf = True"
| "number_le (Fin x) (Fin y) = (x \<le> y)"
| "number_le (Fin x) NegInf = False"
| "number_le PosInf (Fin y) = False"
| "number_le PosInf NegInf = False"

text \<open>
  \<^verbatim>\<open>Math.min(a, b)\<close> and \<^verbatim>\<open>Math.max(a, b)\<close>, which are \<^verbatim>\<open>NaN\<close> when an argument is, and
  \<^verbatim>\<open>Math.pow(2, e)\<close>, the exact power rounded: a power of two with an integer exponent
  is a double, or beyond the doubles.
\<close>

definition Math_min :: "number \<Rightarrow> number \<Rightarrow> number" where
  "Math_min a b = (if a = NaN \<or> b = NaN then NaN else if number_le a b then a else b)"

definition Math_max :: "number \<Rightarrow> number \<Rightarrow> number" where
  "Math_max a b = (if a = NaN \<or> b = NaN then NaN else if number_le a b then b else a)"

definition Math_pow_2 :: "(real \<Rightarrow> number) \<Rightarrow> number \<Rightarrow> number" where
  "Math_pow_2 rnd e =
     (case e of NaN \<Rightarrow> NaN | NegInf \<Rightarrow> Fin 0 | Fin a \<Rightarrow> rnd (2 powr a) | PosInf \<Rightarrow> PosInf)"

section \<open>Configuration, environment and state of a proxy\<close>

text \<open>
  The retry policy and the cache switch of \<^verbatim>\<open>ProxyConfig\<close>; the constructor fills in the
  policy when it is absent.  The three numbers of the policy are numbers of the engine:
  the command line and the HTTP entry give what \<^verbatim>\<open>parseInt\<close> returns, which is an
  integer or \<^verbatim>\<open>NaN\<close>.
\<close>

record RetryConfig =
  maxRetries :: number
  baseDelay :: number
  maxDelay :: number
  jitter :: bool

record ProxyConfig =
  retry :: RetryConfig
  disableCache :: bool

text \<open>
  What the code takes from outside.  A response of the server is its content type, the
  chunks of its body and the way the body ends; a request can also fail before any
  response, by an error of the connection or by the timeout.  \<open>network env k r\<close> is what
  happens to the \<open>k\<close>-th request sent, \<open>r\<close>; \<open>Date_now env k\<close> is the \<open>k\<close>-th reading of
  the clock and \<open>Math_random env k\<close> the \<open>k\<close>-th random number; \<open>nearest_number env\<close>
  is the rounding of the arithmetic, and \<open>String_of env\<close> the text of a value that has
  one.
\<close>

datatype http_outcome =
    RequestError exn
  | RequestTimeout
  | Response string "string list" stream_end

record env =
  JSON_parse :: "string \<Rightarrow> exn + json"
  JSON_stringify :: "json \<Rightarrow> string"
  String_of :: "json option \<Rightarrow> string"
  network :: "nat \<Rightarrow> json \<Rightarrow> http_outcome"
  Date_now :: "nat \<Rightarrow> int"
  Math_random :: "nat \<Rightarrow> real"
  nearest_number :: "real \<Rightarrow> number"

text \<open>
  The fields of \<^verbatim>\<open>LeantimeMcpProxy\<close> that the functions below touch, and the world around
  it: the objects that variables and the cache refer to (\<open>store\<close>, a reference is an
  index), the lines written to the standard output (each one the value that
  \<^verbatim>\<open>JSON.stringify\<close> serialises), the number of requests sent, the delays slept and the
  number of clock readings.
\<close>

record proxy =
  toolCache :: "string \<Rightarrow> nat option"
  cacheTimestamps :: "string \<Rightarrow> int option"
  requestCounter :: nat
  store :: "json list"
  stdout :: "json option list"
  attempts :: nat
  sleeps :: "number list"
  clock_reads :: nat

section \<open>Backoff and retry\<close>

text \<open>
  \<^verbatim>\<open>calculateBackoffDelay\<close> (proxy.ts, 80--92); \<open>random\<close> is the value of
  \<^verbatim>\<open>Math.random()\<close>, read only when the jitter is on.
\<close>

definition calculateBackoffDelay ::
  "(real \<Rightarrow> number) \<Rightarrow> RetryConfig \<Rightarrow> real \<Rightarrow> number \<Rightarrow> number" where
  "calculateBackoffDelay rnd rc random attempt =
     (let delay = number_times rnd (baseDelay rc) (Math_pow_2 rnd attempt);
          delay = Math_min delay (maxDelay rc);
          delay = (if jitter rc
                   then (let jitterAmount = number_times rnd delay (Fin 0.25)
                         in number_plus rnd delay
                              (number_times rnd
                                 (number_minus rnd (number_times rnd (Fin random) (Fin 2))
                                    (Fin 1))
                                 jitterAmount))
                   else delay)
      in Math_max delay (Fin 0))"

text \<open>
  \<^verbatim>\<open>sendToServer\<close> (proxy.ts, 126--183), without the headers it builds and the session
  id that goes into them: \<open>dispatch\<close> is the promise it returns for the \<open>k\<close>-th request
  sent, and \<open>sendToServer\<close> counts the request.  A request that is \<^verbatim>\<open>undefined\<close> has no serialisation, and
  \<^verbatim>\<open>Buffer.byteLength\<close> throws inside the executor of the promise.
\<close>

definition dispatch :: "env \<Rightarrow> json option \<Rightarrow> nat \<Rightarrow> json settle" where
  "dispatch env request k =
     (case request of
        None \<Rightarrow> Rejected (TypeError ''The string argument must be of type string'')
      | Some r \<Rightarrow>
         (case network env k r of
            RequestError error \<Rightarrow> Rejected error
          | RequestTimeout \<Rightarrow> Rejected (Error ''Request timeout'')
          | Response contentType chunks fin \<Rightarrow>
              if str_includes contentType ''text/event-stream''
              then promise (handleSSEResponse (JSON_parse env) chunks fin)
              else handleJSONResponse (JSON_parse env) chunks fin))"

definition sendToServer :: "env \<Rightarrow> json option \<Rightarrow> proxy \<Rightarrow> json settle \<times> proxy" where
  "sendToServer env request s =
     (dispatch env request (attempts s), s\<lparr>attempts := attempts s + 1\<rparr>)"

text \<open>
  \<^verbatim>\<open>sendToServerWithRetry\<close> (proxy.ts, 64--78).  The function calls itself until a
  request is not rejected or \<^verbatim>\<open>attempt >= maxRetries\<close> holds, which for some policies
  never happens: the result \<open>None\<close> is a call that goes on for ever.  The delay is
  slept, whatever number it is.
\<close>

partial_function (option) sendToServerWithRetry ::
  "env \<Rightarrow> ProxyConfig \<Rightarrow> json option \<Rightarrow> number \<Rightarrow> proxy \<Rightarrow> (json settle \<times> proxy) option" where
  "sendToServerWithRetry env cfg request attempt s =
     (case sendToServer env request s of (r, s') \<Rightarrow>
        (case r of
           Resolved v \<Rightarrow> Some (Resolved v, s')
         | Pending \<Rightarrow> Some (Pending, s')
         | Rejected error \<Rightarrow>
             if number_le (maxRetries (retry cfg)) attempt then Some (Rejected error, s')
             else
               (let delay = calculateBackoffDelay (nearest_number env) (retry cfg)
                              (Math_random env (length (sleeps s'))) attempt
                in sendToServerWithRetry env cfg request
                     (number_plus (nearest_number env) attempt (Fin 1))
                     (s'\<lparr>sleeps := sleeps s' @ [delay]\<rparr>))))"

section \<open>The response cache\<close>

definition CACHE_TTL :: int where
  "CACHE_TTL = 5 * 60 * 1000"

text \<open>
  \<^verbatim>\<open>getCachedResponse\<close> (proxy.ts, 102--110) and \<^verbatim>\<open>setCachedResponse\<close> (112--115); \<open>now\<close>
  is the value of \<^verbatim>\<open>Date.now()\<close>.  The result \<open>None\<close> is \<^verbatim>\<open>null\<close> or \<^verbatim>\<open>undefined\<close>: the
  caller only tests the result for truthiness.
\<close>

definition getCachedResponse :: "string \<Rightarrow> int \<Rightarrow> proxy \<Rightarrow> nat option \<times> proxy" where
  "getCachedResponse cacheKey now s =
     (let timestamp = cacheTimestamps s cacheKey in
      if (case timestamp of None \<Rightarrow> True | Some t \<Rightarrow> t = 0 \<or> now - t > CACHE_TTL)
      then (None, s\<lparr>toolCache := (toolCache s)(cacheKey := None),
                     cacheTimestamps := (cacheTimestamps s)(cacheKey := None)\<rparr>)
      else (toolCache s cacheKey, s))"

definition setCachedResponse :: "string \<Rightarrow> nat \<Rightarrow> int \<Rightarrow> proxy \<Rightarrow> proxy" where
  "setCachedResponse cacheKey response now s =
     s\<lparr>toolCache := (toolCache s)(cacheKey \<mapsto> response),
       cacheTimestamps := (cacheTimestamps s)(cacheKey \<mapsto> now)\<rparr>"

text \<open>
  \<^verbatim>\<open>`${v}`\<close>: the string itself, the text that the engine gives for another value, or
  the exception of the conversion.
\<close>

definition ToString :: "env \<Rightarrow> json option \<Rightarrow> exn + string" where
  "ToString env v =
     (case v of
        Some (JStr t) \<Rightarrow> Inr t
      | Some x \<Rightarrow>
          if ToString_throws x
          then Inl (TypeError ''Cannot convert object to primitive value'')
          else Inr (String_of env v)
      | None \<Rightarrow> Inr (String_of env v))"

text \<open>\<^verbatim>\<open>shouldCache\<close> (proxy.ts, 117--124) and \<^verbatim>\<open>getCacheKey\<close> (98--100).\<close>

definition shouldCache :: "ProxyConfig \<Rightarrow> json \<Rightarrow> exn + bool" where
  "shouldCache cfg request =
     (if disableCache cfg then Inr False
      else bindE (get_prop request ''method'') (\<lambda>method.
        Inr (case method of
               Some (JStr m) \<Rightarrow>
                 m \<in> set [''tools/list'', ''resources/list'', ''prompts/list'']
             | _ \<Rightarrow> False)))"

definition getCacheKey :: "env \<Rightarrow> json \<Rightarrow> exn + string" where
  "getCacheKey env request =
     bindE (get_prop request ''method'') (\<lambda>method.
     bindE (ToString env method) (\<lambda>name.
     bindE (get_prop request ''params'') (\<lambda>params.
       Inr (name @ ''_'' @ JSON_stringify env (or_default params (JObj []))))))"

section \<open>Objects in the store\<close>

text \<open>
  A value that a variable of the message loop holds is a reference into the store.
  \<open>alloc\<close> puts a new value there, \<open>deref\<close> reads a reference (\<^verbatim>\<open>undefined\<close> when there
  is nothing), \<open>assign_prop\<close> is the assignment \<^verbatim>\<open>o.k = v\<close> to an object.
\<close>

definition alloc :: "json \<Rightarrow> proxy \<Rightarrow> nat \<times> proxy" where
  "alloc v s = (length (store s), s\<lparr>store := store s @ [v]\<rparr>)"

definition deref :: "proxy \<Rightarrow> nat \<Rightarrow> json option" where
  "deref s a = (if a < length (store s) then Some (store s ! a) else None)"

fun set_prop :: "string \<Rightarrow> json \<Rightarrow> (string \<times> json) list \<Rightarrow> (string \<times> json) list" where
  "set_prop k v [] = [(k, v)]"
| "set_prop k v ((k', v') # kvs) =
     (if k = k' then (k, v) # kvs else (k', v') # set_prop k v kvs)"

definition assign_prop :: "nat \<Rightarrow> string \<Rightarrow> json \<Rightarrow> proxy \<Rightarrow> proxy" where
  "assign_prop a k v s =
     (case deref s a of
        Some (JObj kvs) \<Rightarrow> s\<lparr>store := (store s)[a := JObj (set_prop k v kvs)]\<rparr>
      | _ \<Rightarrow> s)"

text \<open>
  The own enumerable properties that \<^verbatim>\<open>{ ...v }\<close> copies: those of an object, the
  elements of an array and the code units of a string under their indices, nothing for
  the other values.
\<close>

fun digits :: "nat \<Rightarrow> string" where
  "digits n = (if n < 10 then [char_of (48 + n)]
               else digits (n div 10) @ [char_of (48 + n mod 10)])"

fun spread :: "json option \<Rightarrow> (string \<times> json) list" where
  "spread (Some (JObj kvs)) = kvs"
| "spread (Some (JArr xs)) = zip (map digits [0..<length xs]) xs"
| "spread (Some (JStr cs)) = zip (map digits [0..<length cs]) (map (\<lambda>c. JStr [c]) cs)"
| "spread (Some (JNum n)) = []"
| "spread (Some (JBool b)) = []"
| "spread (Some JNull) = []"
| "spread None = []"

section \<open>The message loop\<close>

text \<open>
  \<^verbatim>\<open>handleIncomingMessage\<close> (proxy.ts, 442--546) handles one line.  Its \<^verbatim>\<open>try\<close> block is
  \<open>handle_parsed\<close> from the first call of the log on, with one definition for each of
  its branches; the result is the exception thrown, if any, and the state reached, or
  \<open>None\<close> when the retries of a request go on for ever and the handling never ends
  (whatever it has written before).  Where an \<^verbatim>\<open>await\<close> never resumes nothing more
  happens.  What the log prints is left out, but not the text that
  the first call builds, whose conversions can throw; the other calls of the log convert
  numbers and strings only.  A line is handled from its beginning to its end: two lines
  whose handling overlaps in time are not described.
\<close>

definition write_stdout :: "nat \<Rightarrow> proxy \<Rightarrow> proxy" where
  "write_stdout response s = s\<lparr>stdout := stdout s @ [deref s response]\<rparr>"

text \<open>\<^verbatim>\<open>if (requestId !== null) { response = { ...response, id: requestId }; }\<close>\<close>

definition with_request_id :: "json \<Rightarrow> nat \<Rightarrow> proxy \<Rightarrow> nat \<times> proxy" where
  "with_request_id requestId response s =
     (if requestId \<noteq> JNull
      then alloc (JObj (set_prop ''id'' requestId (spread (deref s response)))) s
      else (response, s))"

definition read_clock :: "env \<Rightarrow> proxy \<Rightarrow> int \<times> proxy" where
  "read_clock env s = (Date_now env (clock_reads s), s\<lparr>clock_reads := clock_reads s + 1\<rparr>)"

definition initNotification :: json where
  "initNotification = JObj [(''jsonrpc'', JStr ''2.0''),
     (''method'', JStr ''notifications/initialized''), (''params'', JObj [])]"

text \<open>
  \<^verbatim>\<open>`[${this.requestCounter}] Handling request: ${parsed.method || 'unknown'} (id: ${requestId})`\<close>
  (proxy.ts, 450).
\<close>

definition handling_request_text :: "env \<Rightarrow> nat \<Rightarrow> json \<Rightarrow> json \<Rightarrow> exn + string" where
  "handling_request_text env counter parsed requestId =
     bindE (get_prop parsed ''method'') (\<lambda>method.
     bindE (ToString env (Some (or_default method (JStr ''unknown'')))) (\<lambda>name.
     bindE (ToString env (Some requestId)) (\<lambda>i.
       Inr (''['' @ digits counter @ ''] Handling request: '' @ name
            @ '' (id: '' @ i @ '')''))))"

definition handle_initialize ::
  "env \<Rightarrow> ProxyConfig \<Rightarrow> json \<Rightarrow> json \<Rightarrow> proxy \<Rightarrow> (exn option \<times> proxy) option" where
  "handle_initialize env cfg parsed requestId s =
     (case sendToServerWithRetry env cfg (Some parsed) (Fin 0) s of
        None \<Rightarrow> None
      | Some (Rejected error, s1) \<Rightarrow> Some (Some error, s1)
      | Some (Pending, s1) \<Rightarrow> Some (None, s1)
      | Some (Resolved v, s1) \<Rightarrow>
          (case alloc v s1 of (response, s2) \<Rightarrow>
           case with_request_id requestId response s2 of (response, s3) \<Rightarrow>
           case sendToServerWithRetry env cfg (Some initNotification) (Fin 0)
                  (write_stdout response s3) of
             None \<Rightarrow> None
           | Some (r, s4) \<Rightarrow> Some (None, s4)))"

definition handle_cache_hit :: "json \<Rightarrow> nat \<Rightarrow> proxy \<Rightarrow> exn option \<times> proxy" where
  "handle_cache_hit requestId cachedResponse s =
     (case alloc (JObj (spread (deref s cachedResponse))) s of (response, s1) \<Rightarrow>
      (None, write_stdout response
               (if requestId \<noteq> JNull then assign_prop response ''id'' requestId s1
                else s1)))"

definition handle_cache_miss ::
  "env \<Rightarrow> ProxyConfig \<Rightarrow> json \<Rightarrow> json \<Rightarrow> string \<Rightarrow> proxy \<Rightarrow> (exn option \<times> proxy) option" where
  "handle_cache_miss env cfg parsed requestId cacheKey s =
     (case sendToServerWithRetry env cfg (Some parsed) (Fin 0) s of
        None \<Rightarrow> None
      | Some (Rejected error, s1) \<Rightarrow> Some (Some error, s1)
      | Some (Pending, s1) \<Rightarrow> Some (None, s1)
      | Some (Resolved v, s1) \<Rightarrow>
          (case alloc v s1 of (response, s2) \<Rightarrow>
           case read_clock env s2 of (now, s3) \<Rightarrow>
           case with_request_id requestId response
                  (setCachedResponse cacheKey response now s3) of
             (response, s4) \<Rightarrow> Some (None, write_stdout response s4)))"

definition handle_cacheable ::
  "env \<Rightarrow> ProxyConfig \<Rightarrow> json \<Rightarrow> json \<Rightarrow> proxy \<Rightarrow> (exn option \<times> proxy) option" where
  "handle_cacheable env cfg parsed requestId s =
     (case getCacheKey env parsed of
        Inl error \<Rightarrow> Some (Some error, s)
      | Inr cacheKey \<Rightarrow>
         (case read_clock env s of (now, s0) \<Rightarrow>
          case getCachedResponse cacheKey now s0 of (cachedResponse, s1) \<Rightarrow>
           (case cachedResponse of
              None \<Rightarrow> handle_cache_miss env cfg parsed requestId cacheKey s1
            | Some c \<Rightarrow>
                if truthy_opt (deref s1 c) then Some (handle_cache_hit requestId c s1)
                else handle_cache_miss env cfg parsed requestId cacheKey s1)))"

definition handle_direct ::
  "env \<Rightarrow> ProxyConfig \<Rightarrow> json \<Rightarrow> json \<Rightarrow> proxy \<Rightarrow> (exn option \<times> proxy) option" where
  "handle_direct env cfg parsed requestId s =
     (case sendToServerWithRetry env cfg (Some parsed) (Fin 0) s of
        None \<Rightarrow> None
      | Some (Rejected error, s1) \<Rightarrow> Some (Some error, s1)
      | Some (Pending, s1) \<Rightarrow> Some (None, s1)
      | Some (Resolved v, s1) \<Rightarrow>
          (case alloc v s1 of (response, s2) \<Rightarrow>
           case with_request_id requestId response s2 of (response, s3) \<Rightarrow>
           Some (None, write_stdout response s3)))"

definition handle_request ::
  "env \<Rightarrow> ProxyConfig \<Rightarrow> json \<Rightarrow> json \<Rightarrow> json option \<Rightarrow> proxy
     \<Rightarrow> (exn option \<times> proxy) option" where
  "handle_request env cfg parsed requestId method s =
     (if method = Some (JStr ''initialize'')
      then handle_initialize env cfg parsed requestId s
      else
        (case shouldCache cfg parsed of
           Inl error \<Rightarrow> Some (Some error, s)
         | Inr True \<Rightarrow> handle_cacheable env cfg parsed requestId s
         | Inr False \<Rightarrow> handle_direct env cfg parsed requestId s))"

definition handle_parsed ::
  "env \<Rightarrow> ProxyConfig \<Rightarrow> json \<Rightarrow> json \<Rightarrow> proxy \<Rightarrow> (exn option \<times> proxy) option" where
  "handle_parsed env cfg parsed requestId s =
     (case handling_request_text env (requestCounter s) parsed requestId of
        Inl error \<Rightarrow> Some (Some error, s)
      | Inr text \<Rightarrow>
         (case get_prop parsed ''method'' of
            Inl error \<Rightarrow> Some (Some error, s)
          | Inr method \<Rightarrow>
             (case method of
                Some (JStr m) \<Rightarrow>
                  if m \<noteq> [] \<and> startsWith m ''notifications/'' then Some (None, s)
                  else handle_request env cfg parsed requestId method s
              | other \<Rightarrow>
                  if truthy_opt other
                  then Some (Some (TypeError ''parsed.method.startsWith is not a function''), s)
                  else handle_request env cfg parsed requestId method s)))"

definition errorResponse :: "json \<Rightarrow> exn \<Rightarrow> json" where
  "errorResponse requestId error =
     JObj [(''jsonrpc'', JStr ''2.0''), (''id'', requestId),
       (''error'', JObj [(''code'', JNum (- 32603)), (''message'', JStr ''Internal error''),
                         (''data'', JStr (exn_message error))])]"

definition handleIncomingMessage ::
  "env \<Rightarrow> ProxyConfig \<Rightarrow> string \<Rightarrow> proxy \<Rightarrow> proxy option" where
  "handleIncomingMessage env cfg message s =
     (case JSON_parse env message of
        Inl error \<Rightarrow> Some (s\<lparr>stdout := stdout s @ [Some (errorResponse JNull error)]\<rparr>)
      | Inr parsed \<Rightarrow>
         (case get_prop parsed ''id'' of
            Inl error \<Rightarrow> Some (s\<lparr>stdout := stdout s @ [Some (errorResponse JNull error)]\<rparr>)
          | Inr i \<Rightarrow>
             (let requestId = (case i of None \<Rightarrow> JNull | Some v \<Rightarrow> v) in
              case handle_parsed env cfg parsed requestId
                     (s\<lparr>requestCounter := requestCounter s + 1\<rparr>) of
                None \<Rightarrow> None
              | Some (None, s') \<Rightarrow> Some s'
              | Some (Some error, s') \<Rightarrow>
                  Some (s'\<lparr>stdout := stdout s' @ [Some (errorResponse requestId error)]\<rparr>))))"

section \<open>The single-request entry points\<close>

text \<open>
  \<^verbatim>\<open>handleHttpRequest\<close> (proxy.ts, 562--579) and \<^verbatim>\<open>proxyRequest\<close> (582--598).  An
  \<^verbatim>\<open>async\<close> function rejects when its body throws: \<open>optional_id\<close> is \<^verbatim>\<open>request?.id\<close>,
  evaluated in the \<^verbatim>\<open>catch\<close> block.  The result is \<open>None\<close> when the retries go on for
  ever.
\<close>

definition optional_id :: "json option \<Rightarrow> exn + json option" where
  "optional_id request =
     (case request of None \<Rightarrow> Inr None | Some JNull \<Rightarrow> Inr None | Some r \<Rightarrow> get_prop r ''id'')"

definition handleHttpRequest ::
  "env \<Rightarrow> ProxyConfig \<Rightarrow> json option \<Rightarrow> proxy \<Rightarrow> (json settle \<times> proxy) option" where
  "handleHttpRequest env cfg request s =
     (case sendToServerWithRetry env cfg request (Fin 0) s of
        None \<Rightarrow> None
      | Some (Rejected error, s') \<Rightarrow>
          (case optional_id request of
             Inl e \<Rightarrow> Some (Rejected e, s')
           | Inr i \<Rightarrow> Some (Resolved (errorResponse (or_default i JNull) error), s'))
      | Some (response, s') \<Rightarrow> Some (response, s'))"

definition proxyRequest ::
  "env \<Rightarrow> ProxyConfig \<Rightarrow> json option \<Rightarrow> proxy \<Rightarrow> (json settle \<times> proxy) option" where
  "proxyRequest env cfg request s =
     (case sendToServerWithRetry env cfg request (Fin 0) s of
        None \<Rightarrow> None
      | Some (Rejected error, s') \<Rightarrow>
          (case optional_id request of
             Inl e \<Rightarrow> Some (Rejected e, s')
           | Inr i \<Rightarrow> Some (Resolved (errorResponse (or_default i JNull) error), s'))
      | Some (response, s') \<Rightarrow> Some (response, s'))"

section \<open>A new proxy\<close>

text \<open>
  The fields of a proxy as its class initialises them, and the retry policy that the
  constructor installs when the configuration has none.
\<close>

definition new_proxy :: proxy where
  "new_proxy = \<lparr>toolCache = Map.empty, cacheTimestamps = Map.empty, requestCounter = 0,
     store = [], stdout = [], attempts = 0, sleeps = [], clock_reads = 0\<rparr>"

definition default_retry :: RetryConfig where
  "default_retry = \<lparr>maxRetries = Fin 3, baseDelay = Fin 1000, maxDelay = Fin 30000,
     jitter = True\<rparr>"

section \<open>Conditions and values of the statements\<close>

text \<open>
  The condition under which a parsed body passes through, for the claim C2: an object
  whose \<^verbatim>\<open>jsonrpc\<close> is the string \<^verbatim>\<open>2.0\<close>, with \<^verbatim>\<open>result\<close> or \<^verbatim>\<open>error\<close>
  defined, and not with an exception field that is a string while \<^verbatim>\<open>result\<close> and
  \<^verbatim>\<open>error\<close> are both falsy.  It is compared with \<open>isValidJsonRpcResponse\<close> in
  \<open>isValid_eq\<close>.
\<close>

definition well_formed_envelope :: "json \<Rightarrow> bool" where
  "well_formed_envelope v =
     (case v of
        JObj kvs \<Rightarrow>
          map_of kvs ''jsonrpc'' = Some (JStr ''2.0'')
          \<and> (map_of kvs ''result'' \<noteq> None \<or> map_of kvs ''error'' \<noteq> None)
          \<and> \<not> (\<not> truthy_opt (map_of kvs ''result'') \<and> \<not> truthy_opt (map_of kvs ''error'')
                \<and> list_ex (\<lambda>field. case map_of kvs field of Some (JStr x) \<Rightarrow> True | _ \<Rightarrow> False)
                     phpErrorFields)
      | _ \<Rightarrow> False)"

text \<open>
  The envelope for a body that is not JSON, with the id \<open>i\<close>; the id of a request as
  the message loop reads it; and the requests that the message loop forwards to the
  server and answers with what the server sent: those that are not a notification, whose
  method is a string or falsy, whose id has a string, and that the cache does not answer.
\<close>

definition malformed_response :: "json \<Rightarrow> string \<Rightarrow> json" where
  "malformed_response i body =
     JObj [(''jsonrpc'', JStr ''2.0''), (''id'', i),
       (''error'', JObj [(''code'', JNum (- 32603)),
          (''message'', JStr ''Invalid server response''),
          (''data'', JObj [(''type'', JStr ''malformed_response''),
                           (''original'', JStr (take 200 body))])])]"

definition request_id :: "json \<Rightarrow> json" where
  "request_id parsed = (case get_prop parsed ''id'' of Inr (Some v) \<Rightarrow> v | _ \<Rightarrow> JNull)"

definition cache_answers :: "env \<Rightarrow> ProxyConfig \<Rightarrow> json \<Rightarrow> proxy \<Rightarrow> bool" where
  "cache_answers env cfg parsed s =
     (shouldCache cfg parsed = Inr True \<and>
      (case getCacheKey env parsed of
         Inl e \<Rightarrow> False
       | Inr key \<Rightarrow>
          (case fst (getCachedResponse key (Date_now env (clock_reads s)) s) of
             None \<Rightarrow> False
           | Some c \<Rightarrow> truthy_opt (deref s c))))"

definition forwarded :: "env \<Rightarrow> ProxyConfig \<Rightarrow> json \<Rightarrow> proxy \<Rightarrow> bool" where
  "forwarded env cfg parsed s =
     ((case get_prop parsed ''method'' of
         Inl e \<Rightarrow> False
       | Inr None \<Rightarrow> True
       | Inr (Some (JStr m)) \<Rightarrow> \<not> startsWith m ''notifications/''
       | Inr (Some v) \<Rightarrow> \<not> truthy v)
      \<and> \<not> ToString_throws (request_id parsed)
      \<and> \<not> cache_answers env cfg parsed s)"

text \<open>
  The value of \<^verbatim>\<open>attempt\<close> in the call of \<^verbatim>\<open>sendToServerWithRetry\<close> that follows \<open>j\<close>
  failures; the condition \<^verbatim>\<open>attempt >= maxRetries\<close> of that call; and the condition
  under which the calls for a request end, when the first of them sends the \<open>k\<close>-th
  request: some call gives up, or some request is not rejected.
\<close>

definition attempt_no :: "env \<Rightarrow> nat \<Rightarrow> number" where
  "attempt_no env j = ((\<lambda>a. number_plus (nearest_number env) a (Fin 1)) ^^ j) (Fin 0)"

definition exhausted :: "env \<Rightarrow> ProxyConfig \<Rightarrow> nat \<Rightarrow> bool" where
  "exhausted env cfg j = number_le (maxRetries (retry cfg)) (attempt_no env j)"

definition retry_ends :: "env \<Rightarrow> ProxyConfig \<Rightarrow> json option \<Rightarrow> nat \<Rightarrow> bool" where
  "retry_ends env cfg request k =
     (\<exists>j. exhausted env cfg j \<or> (\<forall>e. dispatch env request (k + j) \<noteq> Rejected e))"

text \<open>
  The calls for a request resolve with \<open>v\<close> after \<open>j\<close> failures, when the first of them
  sends the \<open>k\<close>-th request: \<open>j\<close> requests are rejected, none of these calls gives up,
  and the next request resolves with \<open>v\<close>.
\<close>

definition resolves_after ::
  "env \<Rightarrow> ProxyConfig \<Rightarrow> json option \<Rightarrow> nat \<Rightarrow> nat \<Rightarrow> json \<Rightarrow> bool" where
  "resolves_after env cfg request k j v =
     ((\<forall>i<j. (\<exists>e. dispatch env request (k + i) = Rejected e) \<and> \<not> exhausted env cfg i)
      \<and> dispatch env request (k + j) = Resolved v)"

text \<open>
  The number of retries that a value of \<^verbatim>\<open>maxRetries\<close> allows, for the claim C5: the
  least natural number that is not below it, and none for \<^verbatim>\<open>NaN\<close> and \<^verbatim>\<open>Infinity\<close>.  The
  engine counts to \<open>n\<close> when the sums \<open>0 + 1\<close>, \<open>1 + 1\<close>, up to \<open>n\<close>, are exact, as they
  are for every \<open>n\<close> up to \<open>2 ^ 53\<close>.
\<close>

definition retry_budget :: "number \<Rightarrow> nat option" where
  "retry_budget m =
     (case m of NaN \<Rightarrow> None | NegInf \<Rightarrow> Some 0 | Fin x \<Rightarrow> Some (nat \<lceil>x\<rceil>) | PosInf \<Rightarrow> None)"

definition counts_to :: "env \<Rightarrow> nat \<Rightarrow> bool" where
  "counts_to env n = (\<forall>k < n. nearest_number env (real k + 1) = Fin (real k + 1))"

text \<open>
  What the claim C7 needs of the rounding, all of it true of the rounding to the nearest
  double: it gives a number, it is monotone, a rounded value rounds to itself, the
  opposite of a real rounds to the opposite, and 0, 1 and 2 are exact.
\<close>

definition rounding :: "(real \<Rightarrow> number) \<Rightarrow> bool" where
  "rounding rnd =
     ((\<forall>x. rnd x \<noteq> NaN)
      \<and> (\<forall>x y. x \<le> y \<longrightarrow> number_le (rnd x) (rnd y))
      \<and> (\<forall>x y. rnd x = Fin y \<longrightarrow> rnd y = Fin y)
      \<and> (\<forall>x. rnd (- x) = negate (rnd x))
      \<and> rnd 0 = Fin 0 \<and> rnd 1 = Fin 1 \<and> rnd 2 = Fin 2)"

text \<open>
  The notifications of the message loop, and \<^verbatim>\<open>request?.id || null\<close> as the claim C10
  words it: the id of the request when that is truthy, \<^verbatim>\<open>null\<close> otherwise.
\<close>

definition is_notification :: "json \<Rightarrow> bool" where
  "is_notification parsed =
     (case get_prop parsed ''method'' of
        Inr (Some (JStr m)) \<Rightarrow> startsWith m ''notifications/''
      | _ \<Rightarrow> False)"

definition request_id_or_null :: "json option \<Rightarrow> json" where
  "request_id_or_null request =
     (case request of
        Some (JObj kvs) \<Rightarrow>
          (case map_of kvs ''id'' of None \<Rightarrow> JNull | Some v \<Rightarrow> if truthy v then v else JNull)
      | _ \<Rightarrow> JNull)"



text \<open>
  Three relations between the states before and after a step: nothing but the count of
  the requests and the delays has changed; one envelope with the id \<open>i\<close> has been
  written; and a branch of the message loop has either written such an envelope or
  thrown without writing.
\<close>

definition same_but_sent :: "proxy \<Rightarrow> proxy \<Rightarrow> bool" where
  "same_but_sent s s' =
     (toolCache s' = toolCache s \<and> cacheTimestamps s' = cacheTimestamps s
      \<and> requestCounter s' = requestCounter s \<and> store s' = store s
      \<and> stdout s' = stdout s \<and> clock_reads s' = clock_reads s)"

definition writes_with_id :: "json \<Rightarrow> proxy \<Rightarrow> proxy \<Rightarrow> bool" where
  "writes_with_id i s s' =
     (\<exists>envelope. stdout s' = stdout s @ [Some (JObj envelope)] \<and> map_of envelope ''id'' = Some i)"

definition step_ok :: "json \<Rightarrow> proxy \<Rightarrow> exn option \<times> proxy \<Rightarrow> bool" where
  "step_ok i s res =
     (case res of (None, s') \<Rightarrow> writes_with_id i s s' | (Some e, s') \<Rightarrow> stdout s' = stdout s)"

section \<open>Lines, bodies and an environment for the examples\<close>

text \<open>
  The request lines and response bodies of the examples, each with the value that
  \<^verbatim>\<open>JSON.parse\<close> gives for it.
\<close>

definition tools_list_line :: string where
  \<open>tools_list_line = ''{"jsonrpc":"2.0","id":42,"method":"tools/list"}''\<close>

definition tools_list_request :: json where
  "tools_list_request = JObj [(''jsonrpc'', JStr ''2.0''), (''id'', JNum 42),
     (''method'', JStr ''tools/list'')]"

definition no_id_line :: string where
  \<open>no_id_line = ''{"jsonrpc":"2.0","method":"tools/list"}''\<close>

definition no_id_request :: json where
  "no_id_request = JObj [(''jsonrpc'', JStr ''2.0''), (''method'', JStr ''tools/list'')]"

definition progress_line :: string where
  \<open>progress_line = ''{"jsonrpc":"2.0","id":42,"method":"notifications/progress"}''\<close>

definition progress_request :: json where
  "progress_request = JObj [(''jsonrpc'', JStr ''2.0''), (''id'', JNum 42),
     (''method'', JStr ''notifications/progress'')]"

definition tools_call_line :: string where
  \<open>tools_call_line = ''{"jsonrpc":"2.0","id":7,"method":"tools/call"}''\<close>

definition tools_call_request :: json where
  "tools_call_request = JObj [(''jsonrpc'', JStr ''2.0''), (''id'', JNum 7),
     (''method'', JStr ''tools/call'')]"

text \<open>The request \<^verbatim>\<open>tools/call\<close> with the id 0, as an object.\<close>

definition zero_id_request :: json where
  "zero_id_request = JObj [(''jsonrpc'', JStr ''2.0''), (''id'', JNum 0),
     (''method'', JStr ''tools/call'')]"

definition initialize_line :: string where
  \<open>initialize_line = ''{"jsonrpc":"2.0","id":1,"method":"initialize"}''\<close>

definition initialize_request :: json where
  "initialize_request = JObj [(''jsonrpc'', JStr ''2.0''), (''id'', JNum 1),
     (''method'', JStr ''initialize'')]"

text \<open>A notification whose id is an object with a property \<^verbatim>\<open>toString\<close>.\<close>

definition hostile_line :: string where
  \<open>hostile_line = ''{"jsonrpc":"2.0","id":{"toString":0},"method":"notifications/progress"}''\<close>

definition hostile_request :: json where
  "hostile_request = JObj [(''jsonrpc'', JStr ''2.0''),
     (''id'', JObj [(''toString'', JNum 0)]), (''method'', JStr ''notifications/progress'')]"

definition tools_body :: string where
  \<open>tools_body = ''{"jsonrpc":"2.0","id":42,"result":{"tools":[]}}''\<close>

definition tools_response :: json where
  "tools_response = JObj [(''jsonrpc'', JStr ''2.0''), (''id'', JNum 42),
     (''result'', JObj [(''tools'', JArr [])])]"

definition both_body :: string where
  \<open>both_body = ''{"jsonrpc":"2.0","id":1,"result":{"ok":true},"error":{"code":-1,"message":"late"}}''\<close>

definition both_response :: json where
  "both_response = JObj [(''jsonrpc'', JStr ''2.0''), (''id'', JNum 1),
     (''result'', JObj [(''ok'', JBool True)]),
     (''error'', JObj [(''code'', JNum (- 1)), (''message'', JStr ''late'')])]"

definition partial_body :: string where
  \<open>partial_body = ''{"jsonrpc":"2.0","id":2,"result":[],"error":{"code":-2,"message":"partial"}}''\<close>

definition partial_response :: json where
  "partial_response = JObj [(''jsonrpc'', JStr ''2.0''), (''id'', JNum 2),
     (''result'', JArr []),
     (''error'', JObj [(''code'', JNum (- 2)), (''message'', JStr ''partial'')])]"

definition php_body :: string where
  \<open>php_body = ''{"message":"Server Error","exception":"RuntimeException"}''\<close>

definition php_response :: json where
  "php_response = JObj [(''message'', JStr ''Server Error''),
     (''exception'', JStr ''RuntimeException'')]"

definition sample_texts :: "(string \<times> json) list" where
  "sample_texts = [(tools_list_line, tools_list_request), (no_id_line, no_id_request),
     (progress_line, progress_request), (tools_call_line, tools_call_request),
     (initialize_line, initialize_request), (hostile_line, hostile_request),
     (tools_body, tools_response), (both_body, both_response),
     (partial_body, partial_response), (php_body, php_response)]"

text \<open>
  \<^verbatim>\<open>JSON.parse\<close> on the texts that the examples parse: those of the table, and texts
  that are not JSON.  \<^verbatim>\<open>JSON.stringify\<close> on the only value that the examples
  serialise, the empty object.
\<close>

definition sample_parse :: "string \<Rightarrow> exn + json" where
  "sample_parse text =
     (case map_of sample_texts text of
        Some v \<Rightarrow> Inr v
      | None \<Rightarrow> Inl (SyntaxError ''Unexpected token''))"

definition sample_stringify :: "json \<Rightarrow> string" where
  "sample_stringify v = (if v = JObj [] then ''{}'' else [])"

text \<open>
  The rounding on the real numbers that are doubles, which is all that the examples
  compute, and beyond the largest double: a real overflows from
  \<open>2 ^ 1024 - 2 ^ 970\<close> on.
\<close>

definition sample_round :: "real \<Rightarrow> number" where
  "sample_round x =
     (if 2 ^ 1024 - 2 ^ 970 \<le> x then PosInf
      else if x \<le> - (2 ^ 1024 - 2 ^ 970) then NegInf
      else Fin x)"

text \<open>
  An environment whose server answers every request with the list of tools, as JSON;
  a server that cannot be reached, and one that fails twice before it answers.
\<close>

definition sample_env :: env where
  "sample_env = \<lparr>JSON_parse = sample_parse, JSON_stringify = sample_stringify,
     String_of = (\<lambda>v. ''undefined''),
     network = (\<lambda>k r. Response ''application/json'' [tools_body] End),
     Date_now = (\<lambda>k. 1700000000000 + 1000 * int k),
     Math_random = (\<lambda>k. 1/2), nearest_number = sample_round\<rparr>"

definition refused :: "nat \<Rightarrow> json \<Rightarrow> http_outcome" where
  "refused k r = RequestError (Error ''connect ECONNREFUSED'')"

definition flaky :: "nat \<Rightarrow> json \<Rightarrow> http_outcome" where
  "flaky k r = (if k < 2 then RequestError (Error ''socket hang up'')
                else Response ''application/json'' [tools_body] End)"


definition sample_config :: ProxyConfig where
  "sample_config = \<lparr>retry = default_retry, disableCache = False\<rparr>"

text \<open>
  The policy of an HTTP entry started with \<^verbatim>\<open>RETRY_DELAY=0\<close> and \<^verbatim>\<open>MAX_RETRIES=1025\<close>,
  and a policy whose base delay is the least positive double.
\<close>

definition zero_delay_retry :: RetryConfig where
  "zero_delay_retry = \<lparr>maxRetries = Fin 1025, baseDelay = Fin 0, maxDelay = Fin 30000,
     jitter = True\<rparr>"

definition tiny_delay_retry :: RetryConfig where
  "tiny_delay_retry = \<lparr>maxRetries = Fin 1025, baseDelay = Fin (1 / 2 ^ 1074),
     maxDelay = Fin 30000, jitter = False\<rparr>"


section \<open>The cache and its time to live\<close>

text \<open>
  Claim C3, as the code has it.  A reference stored under a key at a time \<open>T\<close> other than
  0 is returned, and the cache left as it is, by a lookup at \<open>T + \<Delta>\<close> for every
  \<open>\<Delta> \<le> 300000\<close>; for \<open>\<Delta> > 300000\<close> the lookup returns \<^verbatim>\<open>null\<close> and removes the key from
  both maps.  The entry expires when it is older than the time to live, not when it
  reaches it.
\<close>

theorem cache_ttl:
  assumes "T \<noteq> 0"
  shows "(\<Delta> \<le> 300000 \<longrightarrow>
            getCachedResponse key (T + \<Delta>) (setCachedResponse key response T s)
              = (Some response, setCachedResponse key response T s))
       \<and> (\<Delta> > 300000 \<longrightarrow>
            getCachedResponse key (T + \<Delta>) (setCachedResponse key response T s)
              = (None, s\<lparr>toolCache := (toolCache s)(key := None),
                          cacheTimestamps := (cacheTimestamps s)(key := None)\<rparr>))"
  using assms by (simp add: getCachedResponse_def setCachedResponse_def CACHE_TTL_def)

text \<open>The two cases at a concrete cache: one millisecond before and after the limit.\<close>

theorem cache_ttl_witness:
  "getCachedResponse ''tools/list_{}'' (1000 + 299999)
       (setCachedResponse ''tools/list_{}'' 0 1000 new_proxy)
     = (Some 0, setCachedResponse ''tools/list_{}'' 0 1000 new_proxy)
   \<and> fst (getCachedResponse ''tools/list_{}'' (1000 + 300001)
       (setCachedResponse ''tools/list_{}'' 0 1000 new_proxy)) = None"
  using cache_ttl [of 1000 299999 "''tools/list_{}''" 0 new_proxy]
        cache_ttl [of 1000 300001 "''tools/list_{}''" 0 new_proxy]
  by simp

text \<open>
  Claim C3 as stated fails at \<open>\<Delta> = 300000\<close>: the entry stored at time 1000 is still
  returned at time 301000.
\<close>

theorem cache_ttl_counterexample:
  "fst (getCachedResponse ''tools/list_{}'' (1000 + 300000)
          (setCachedResponse ''tools/list_{}'' 0 1000 new_proxy)) = Some 0"
  by (simp add: getCachedResponse_def setCachedResponse_def CACHE_TTL_def new_proxy_def)

section \<open>The backoff delay\<close>

text \<open>
  The comparison of numbers, and what follows for the rounded value of a real that lies
  between two numbers that round to themselves.
\<close>

lemma number_le_trans: "number_le a b \<Longrightarrow> number_le b c \<Longrightarrow> number_le a c"
  by (cases a; cases b; cases c) auto

lemma number_le_between:
  "number_le (Fin a) x \<Longrightarrow> number_le x (Fin c) \<Longrightarrow> \<exists>y. x = Fin y \<and> a \<le> y \<and> y \<le> c"
  by (cases x) auto

lemma number_le_above:
  "number_le (Fin a) x \<Longrightarrow> x = PosInf \<or> (\<exists>y. x = Fin y \<and> a \<le> y)"
  by (cases x) auto

lemma Math_max_zero: "number_le (Fin 0) x \<Longrightarrow> Math_max x (Fin 0) = x"
  by (cases x) (auto simp add: Math_max_def)

lemma rounding_mono: "rounding rnd \<Longrightarrow> x \<le> y \<Longrightarrow> number_le (rnd x) (rnd y)"
  by (simp add: rounding_def)

lemma rounding_again: "rounding rnd \<Longrightarrow> rnd x = Fin y \<Longrightarrow> rnd y = Fin y"
  by (auto simp add: rounding_def)

lemma rounding_between:
  assumes "rounding rnd" and "rnd a = Fin a" and "rnd c = Fin c" and "a \<le> x" and "x \<le> c"
  shows "\<exists>y. rnd x = Fin y \<and> a \<le> y \<and> y \<le> c \<and> rnd y = Fin y"
proof -
  have "number_le (Fin a) (rnd x)" "number_le (rnd x) (Fin c)"
    using rounding_mono [OF assms(1,4)] rounding_mono [OF assms(1,5)] assms(2,3) by simp_all
  then obtain y where "rnd x = Fin y" "a \<le> y" "y \<le> c"
    using number_le_between by blast
  then show ?thesis using rounding_again [OF assms(1)] by blast
qed

lemma rounding_opposite: "rounding rnd \<Longrightarrow> rnd y = Fin y \<Longrightarrow> rnd (- y) = Fin (- y)"
  by (simp add: rounding_def)

text \<open>The capped delay and the factor of the jitter.\<close>

lemma backoff_delay:
  assumes R: "rounding rnd"
    and b: "baseDelay rc = Fin b" "0 \<le> b"
    and M: "maxDelay rc = Fin M" "0 \<le> M" "rnd M = Fin M"
    and nz: "b \<noteq> 0 \<or> Math_pow_2 rnd (Fin (real n)) \<noteq> PosInf"
  shows "\<exists>m. Math_min (number_times rnd (Fin b) (Math_pow_2 rnd (Fin (real n)))) (Fin M) = Fin m
           \<and> 0 \<le> m \<and> m \<le> M \<and> rnd m = Fin m"
proof -
  have z: "rnd 0 = Fin 0" and o: "rnd 1 = Fin 1" using R by (simp_all add: rounding_def)
  define p where "p = Math_pow_2 rnd (Fin (real n))"
  have "p = rnd (2 ^ n)" by (simp add: p_def Math_pow_2_def powr_realpow)
  moreover have "number_le (rnd 1) (rnd (2 ^ n))" by (rule rounding_mono [OF R]) simp
  ultimately have "number_le (Fin 1) p" using o by simp
  then have p: "p = PosInf \<or> (\<exists>y. p = Fin y \<and> 1 \<le> y)" by (rule number_le_above)
  define d0 where "d0 = number_times rnd (Fin b) p"
  have d0: "d0 = PosInf \<or> (\<exists>x. d0 = Fin x \<and> 0 \<le> x \<and> rnd x = Fin x)"
  proof (cases "p = PosInf")
    case True
    then have "b \<noteq> 0" using nz by (simp add: p_def)
    then show ?thesis using True b(2) by (simp add: d0_def)
  next
    case False
    then obtain y where y: "p = Fin y" "1 \<le> y" using p by blast
    have "number_le (rnd 0) (rnd (b * y))"
      by (rule rounding_mono [OF R]) (use b(2) y(2) in simp)
    then have "number_le (Fin 0) d0" using z y(1) by (simp add: d0_def)
    then have "d0 = PosInf \<or> (\<exists>x. d0 = Fin x \<and> 0 \<le> x)" by (rule number_le_above)
    moreover have "rnd x = Fin x" if "d0 = Fin x" for x
      using that y(1) rounding_again [OF R, of "b * y" x] by (simp add: d0_def)
    ultimately show ?thesis by blast
  qed
  have "\<exists>m. Math_min d0 (Fin M) = Fin m \<and> 0 \<le> m \<and> m \<le> M \<and> rnd m = Fin m"
  proof (cases "d0 = PosInf")
    case True
    then show ?thesis using M by (simp add: Math_min_def)
  next
    case False
    then obtain x where x: "d0 = Fin x" "0 \<le> x" "rnd x = Fin x" using d0 by blast
    then show ?thesis using M by (simp add: Math_min_def)
  qed
  then show ?thesis by (simp add: d0_def p_def)
qed

lemma jitter_factor:
  assumes R: "rounding rnd" and r: "0 \<le> random" "random < 1"
  shows "\<exists>f. number_minus rnd (number_times rnd (Fin random) (Fin 2)) (Fin 1) = Fin f
           \<and> - 1 \<le> f \<and> f \<le> 1"
proof -
  have z: "rnd 0 = Fin 0" and o: "rnd 1 = Fin 1" and t: "rnd 2 = Fin 2"
    using R by (simp_all add: rounding_def)
  have m: "rnd (- 1) = Fin (- 1)" using rounding_opposite [OF R o] .
  obtain u where u: "rnd (random * 2) = Fin u" "0 \<le> u" "u \<le> 2"
    using rounding_between [OF R z t, of "random * 2"] r by auto
  obtain f where f: "rnd (u + - 1) = Fin f" "- 1 \<le> f" "f \<le> 1"
    using rounding_between [OF R m o, of "u + - 1"] u by auto
  show ?thesis using u f by (simp add: number_minus_def)
qed

text \<open>The rounding of the examples is one.\<close>

lemma sample_round_exact:
  "- (2 ^ 64) \<le> x \<Longrightarrow> x \<le> 2 ^ 64 \<Longrightarrow> sample_round x = Fin x"
proof -
  assume a: "- (2 ^ 64) \<le> x" "x \<le> 2 ^ 64"
  have "(2::real) ^ 64 < 2 ^ 1024 - 2 ^ 970" by simp
  then show ?thesis using a by (simp add: sample_round_def)
qed

lemma sample_rounding: "rounding sample_round"
proof -
  define T :: real where "T = 2 ^ 1024 - 2 ^ 970"
  have T: "2 < T" by (simp add: T_def)
  have r: "sample_round x = (if T \<le> x then PosInf else if x \<le> - T then NegInf else Fin x)"
    for x by (simp add: sample_round_def T_def)
  show ?thesis
    unfolding rounding_def using T by (auto simp add: r)
qed

text \<open>
  Claim C7, as the code has it: in the arithmetic of the engine, whose rounding is any
  function with the properties of \<open>rounding\<close>, for a base delay and a maximal delay that
  are finite and not negative (the latter a number of the engine), a random number in
  \<open>[0, 1)\<close> and an attempt \<open>n\<close>, unless the base delay is 0 and \<open>2 ^ n\<close> overflows.  The capped delay \<open>m = Math.min(baseDelay * 2 ^ n, maxDelay)\<close> lies
  between 0 and \<^verbatim>\<open>maxDelay\<close>, and its quarter \<open>ja\<close> between 0 and \<open>m\<close>.  The delay
  returned is a number between 0 and \<open>maxDelay + maxDelay * 0.25\<close>, which is
  \<open>maxDelay * 1.25\<close> where the quarter of \<^verbatim>\<open>maxDelay\<close> is exact; without jitter it is
  \<open>m\<close>; with jitter it is \<open>m + f * ja\<close> for the factor \<open>f = random * 2 - 1\<close>, which lies
  between \<open>-1\<close> and 1, so that it lies between \<open>m - ja\<close> and \<open>m + ja\<close>; the final
  \<^verbatim>\<open>Math.max\<close> changes nothing.
\<close>

theorem backoff_bounds:
  assumes R: "rounding rnd"
    and b: "baseDelay rc = Fin b" "0 \<le> b"
    and M: "maxDelay rc = Fin M" "0 \<le> M" "rnd M = Fin M"
    and r: "0 \<le> random" "random < 1"
    and nz: "b \<noteq> 0 \<or> Math_pow_2 rnd (Fin (real n)) \<noteq> PosInf"
  shows "\<exists>m ja.
           Math_min (number_times rnd (Fin b) (Math_pow_2 rnd (Fin (real n)))) (Fin M) = Fin m
         \<and> 0 \<le> m \<and> m \<le> M
         \<and> number_times rnd (Fin m) (Fin 0.25) = Fin ja \<and> 0 \<le> ja \<and> ja \<le> m
         \<and> number_le (Fin 0) (calculateBackoffDelay rnd rc random (Fin (real n)))
         \<and> number_le (calculateBackoffDelay rnd rc random (Fin (real n)))
              (number_plus rnd (Fin M) (number_times rnd (Fin M) (Fin 0.25)))
         \<and> (number_times rnd (Fin M) (Fin 0.25) = Fin (M * 0.25) \<longrightarrow>
              number_plus rnd (Fin M) (number_times rnd (Fin M) (Fin 0.25))
                = number_times rnd (Fin M) (Fin 1.25))
         \<and> (\<not> jitter rc \<longrightarrow> calculateBackoffDelay rnd rc random (Fin (real n)) = Fin m)
         \<and> (jitter rc \<longrightarrow>
              number_le (number_minus rnd (Fin m) (Fin ja))
                (calculateBackoffDelay rnd rc random (Fin (real n)))
            \<and> number_le (calculateBackoffDelay rnd rc random (Fin (real n)))
                (number_plus rnd (Fin m) (Fin ja))
            \<and> (\<exists>f. number_minus rnd (number_times rnd (Fin random) (Fin 2)) (Fin 1) = Fin f
                  \<and> - 1 \<le> f \<and> f \<le> 1
                  \<and> calculateBackoffDelay rnd rc random (Fin (real n))
                      = number_plus rnd (Fin m) (number_times rnd (Fin f) (Fin ja))))"
proof -
  let ?d = "calculateBackoffDelay rnd rc random (Fin (real n))"
  have z: "rnd 0 = Fin 0" using R by (simp add: rounding_def)
  obtain m where m: "Math_min (number_times rnd (Fin b) (Math_pow_2 rnd (Fin (real n)))) (Fin M)
                       = Fin m" "0 \<le> m" "m \<le> M" "rnd m = Fin m"
    using backoff_delay [OF R b M nz] by blast
  obtain ja where ja: "rnd (m * 0.25) = Fin ja" "0 \<le> ja" "ja \<le> m" "rnd ja = Fin ja"
    using rounding_between [OF R z m(4), of "m * 0.25"] m(2) by auto
  obtain Q where Q: "rnd (M * 0.25) = Fin Q" "0 \<le> Q" "Q \<le> M"
    using rounding_between [OF R z M(3), of "M * 0.25"] M(2) by auto
  have "number_le (rnd (m * 0.25)) (rnd (M * 0.25))"
    by (rule rounding_mono [OF R]) (use m(3) in simp)
  then have jaQ: "ja \<le> Q" using ja(1) Q(1) by simp
  obtain f where f: "number_minus rnd (number_times rnd (Fin random) (Fin 2)) (Fin 1) = Fin f"
      "- 1 \<le> f" "f \<le> 1"
    using jitter_factor [OF R r] by blast
  have nja: "rnd (- ja) = Fin (- ja)" using rounding_opposite [OF R ja(4)] .
  have "- ja \<le> f * ja" using mult_right_mono [of "- 1" f ja] f(2) ja(2) by simp
  moreover have "f * ja \<le> ja" using mult_right_mono [of f 1 ja] f(3) ja(2) by simp
  ultimately obtain jv where jv: "rnd (f * ja) = Fin jv" "- ja \<le> jv" "jv \<le> ja"
    using rounding_between [OF R nja ja(4), of "f * ja"] by auto
  define sum where "sum = rnd (m + jv)"
  have lo: "number_le (rnd (m + - ja)) sum" unfolding sum_def
    by (rule rounding_mono [OF R]) (use jv(2) in simp)
  have hi: "number_le sum (rnd (m + ja))" unfolding sum_def
    by (rule rounding_mono [OF R]) (use jv(3) in simp)
  have "number_le (rnd 0) (rnd (m + - ja))"
    by (rule rounding_mono [OF R]) (use ja(3) in simp)
  then have s0: "number_le (Fin 0) sum" using lo z number_le_trans by metis
  have "number_le (rnd (m + ja)) (rnd (M + Q))"
    by (rule rounding_mono [OF R]) (use m(3) jaQ in simp)
  then have sB: "number_le sum (rnd (M + Q))" using hi number_le_trans by blast
  have "number_le (rnd m) (rnd (M + Q))"
    by (rule rounding_mono [OF R]) (use m(3) Q(2) in simp)
  then have mB: "number_le (Fin m) (rnd (M + Q))" using m(4) by simp
  have dj: "?d = sum" if "jitter rc"
    using that m(1) ja(1) f(1) jv(1) s0
    by (simp add: calculateBackoffDelay_def Let_def b(1) M(1) sum_def Math_max_zero)
  have dn: "?d = Fin m" if "\<not> jitter rc"
    using that m(1,2)
    by (simp add: calculateBackoffDelay_def Let_def b(1) M(1) Math_max_zero)
  have B: "number_plus rnd (Fin M) (number_times rnd (Fin M) (Fin 0.25)) = rnd (M + Q)"
    using Q(1) by simp
  have c1: "number_le (Fin 0) ?d"
    using dj dn s0 m(2) by (cases "jitter rc") simp_all
  have c2: "number_le ?d (number_plus rnd (Fin M) (number_times rnd (Fin M) (Fin 0.25)))"
    unfolding B using dj dn sB mB by (cases "jitter rc") simp_all
  have c3: "number_times rnd (Fin M) (Fin 0.25) = Fin (M * 0.25) \<longrightarrow>
              number_plus rnd (Fin M) (number_times rnd (Fin M) (Fin 0.25))
                = number_times rnd (Fin M) (Fin 1.25)"
  proof
    assume a: "number_times rnd (Fin M) (Fin 0.25) = Fin (M * 0.25)"
    have e: "M + M * 0.25 = M * 1.25" by simp
    have "number_plus rnd (Fin M) (Fin (M * 0.25)) = number_times rnd (Fin M) (Fin 1.25)"
      by (simp only: number_plus.simps number_times.simps e)
    then show "number_plus rnd (Fin M) (number_times rnd (Fin M) (Fin 0.25))
                = number_times rnd (Fin M) (Fin 1.25)" by (simp only: a)
  qed
  have c5: "jitter rc \<longrightarrow>
              number_le (number_minus rnd (Fin m) (Fin ja)) ?d
            \<and> number_le ?d (number_plus rnd (Fin m) (Fin ja))
            \<and> (\<exists>f. number_minus rnd (number_times rnd (Fin random) (Fin 2)) (Fin 1) = Fin f
                  \<and> - 1 \<le> f \<and> f \<le> 1
                  \<and> ?d = number_plus rnd (Fin m) (number_times rnd (Fin f) (Fin ja)))"
  proof
    assume j: "jitter rc"
    have "?d = number_plus rnd (Fin m) (number_times rnd (Fin f) (Fin ja))"
      using dj [OF j] jv(1) by (simp add: sum_def)
    then show "number_le (number_minus rnd (Fin m) (Fin ja)) ?d
            \<and> number_le ?d (number_plus rnd (Fin m) (Fin ja))
            \<and> (\<exists>f. number_minus rnd (number_times rnd (Fin random) (Fin 2)) (Fin 1) = Fin f
                  \<and> - 1 \<le> f \<and> f \<le> 1
                  \<and> ?d = number_plus rnd (Fin m) (number_times rnd (Fin f) (Fin ja)))"
      using dj [OF j] lo hi f by (auto simp add: number_minus_def)
  qed
  show ?thesis
    using m(1,2,3) ja(1,2,3) c1 c2 c3 dn c5 by (intro exI [of _ m] exI [of _ ja]) simp
qed

text \<open>
  The default policy at the third attempt, with and without jitter: the random number
  3/4 turns the delay 4000 into 4500, below the bound 37500.
\<close>

theorem backoff_bounds_witness:
  "calculateBackoffDelay sample_round default_retry (3/4) (Fin 2) = Fin 4500
   \<and> calculateBackoffDelay sample_round (default_retry\<lparr>jitter := False\<rparr>) (3/4) (Fin 2)
       = Fin 4000
   \<and> number_plus sample_round (Fin 30000) (number_times sample_round (Fin 30000) (Fin 0.25))
       = Fin 37500
   \<and> number_times sample_round (Fin 30000) (Fin 1.25) = Fin 37500"
proof -
  have x: "sample_round 30000 = Fin 30000" "sample_round 4 = Fin 4"
      "sample_round 4000 = Fin 4000" "sample_round 1000 = Fin 1000"
      "sample_round (3 / 2) = Fin (3 / 2)" "sample_round (1 / 2) = Fin (1 / 2)"
      "sample_round 500 = Fin 500" "sample_round 4500 = Fin 4500"
      "sample_round 7500 = Fin 7500" "sample_round 37500 = Fin 37500"
    by (simp_all add: sample_round_exact)
  have p: "Math_pow_2 sample_round (Fin 2) = Fin 4"
    by (simp add: Math_pow_2_def x)
  have c: "baseDelay default_retry = Fin 1000" "maxDelay default_retry = Fin 30000"
      "baseDelay (default_retry\<lparr>jitter := False\<rparr>) = Fin 1000"
      "maxDelay (default_retry\<lparr>jitter := False\<rparr>) = Fin 30000"
    by (simp_all add: default_retry_def)
  have nz: "(1000::real) \<noteq> 0 \<or> Math_pow_2 sample_round (Fin (real 2)) \<noteq> PosInf"
    by simp
  have o: "(0::real) \<le> 1000" "(0::real) \<le> 30000" "(0::real) \<le> 3/4" "(3/4::real) < 1"
    by simp_all
  note w1 = backoff_bounds [OF sample_rounding c(1) o(1) c(2) o(2) x(1) o(3) o(4) nz]
  note w2 = backoff_bounds [OF sample_rounding c(3) o(1) c(4) o(2) x(1) o(3) o(4) nz]
  have e1: "calculateBackoffDelay sample_round default_retry (3/4) (Fin 2) = Fin 4500"
    by (simp add: default_retry_def x p Math_min_def Math_max_def number_minus_def
          calculateBackoffDelay_def)
  have e2: "calculateBackoffDelay sample_round (default_retry\<lparr>jitter := False\<rparr>) (3/4) (Fin 2)
              = Fin 4000"
    by (simp add: default_retry_def x p Math_min_def Math_max_def calculateBackoffDelay_def)
  have e3: "number_plus sample_round (Fin 30000)
              (number_times sample_round (Fin 30000) (Fin 0.25)) = Fin 37500"
      "number_times sample_round (Fin 30000) (Fin 1.25) = Fin 37500"
    by (simp_all add: x)
  show ?thesis
    using w1 w2 by (simp only: e1 e2 e3)
qed

text \<open>
  Claim C7 as stated fails: with the base delay 0 the attempt 1024 gives
  \<open>0 * Infinity\<close>, and the delay returned is \<^verbatim>\<open>NaN\<close>, with and without jitter, which is
  neither at least 0 nor at most a bound.  And with the least positive base delay the
  same attempt gives \<^verbatim>\<open>Infinity\<close> for the product, so that the delay without jitter is
  \<^verbatim>\<open>maxDelay\<close>, where the product of the real numbers is \<open>1 / 2 ^ 50\<close>.
\<close>

theorem backoff_bounds_counterexample:
  "baseDelay zero_delay_retry = Fin 0 \<and> maxDelay zero_delay_retry = Fin 30000
   \<and> Math_pow_2 sample_round (Fin 1024) = PosInf
   \<and> calculateBackoffDelay sample_round zero_delay_retry (1/2) (Fin 1024) = NaN
   \<and> calculateBackoffDelay sample_round (zero_delay_retry\<lparr>jitter := False\<rparr>) (1/2) (Fin 1024)
       = NaN
   \<and> \<not> number_le (Fin 0) NaN
   \<and> \<not> number_le NaN (number_times sample_round (Fin 30000) (Fin 1.25))
   \<and> calculateBackoffDelay sample_round tiny_delay_retry (1/2) (Fin 1024) = Fin 30000
   \<and> min (1 / 2 ^ 1074 * 2 ^ 1024) (30000::real) = 1 / 2 ^ 50"
proof -
  have p: "Math_pow_2 sample_round (Fin 1024) = PosInf"
    by (simp add: Math_pow_2_def sample_round_def)
  have "(1::real) / 2 ^ 1074 * 2 ^ 1024 = 1 / 2 ^ 50" by simp
  then have m: "min (1 / 2 ^ 1074 * 2 ^ 1024) (30000::real) = 1 / 2 ^ 50" by simp
  show ?thesis
    unfolding m
    by (simp add: p calculateBackoffDelay_def zero_delay_retry_def tiny_delay_retry_def
          Math_min_def Math_max_def)
qed

section \<open>Validation and conversion\<close>

text \<open>
  The validation computes \<open>well_formed_envelope\<close>; neither it nor the conversion
  throws, so the \<^verbatim>\<open>catch\<close> of \<^verbatim>\<open>convertServerErrorToJsonRpc\<close> is never entered; and every
  converted envelope has the three fields \<^verbatim>\<open>jsonrpc\<close>, \<^verbatim>\<open>id\<close> and \<^verbatim>\<open>error\<close>.
\<close>

lemma typeof_string_case:
  "(typeof v = ''string'') = (case v of Some (JStr x) \<Rightarrow> True | _ \<Rightarrow> False)"
  by (cases v rule: typeof.cases) simp_all

lemma convert_try_total:
  "\<exists>r. convertServerErrorToJsonRpc_try d p = Inr r"
  by (cases p) (simp_all add: convertServerErrorToJsonRpc_try_def bindE_def Let_def)

lemma list_ex_guard:
  "list_ex (\<lambda>x. P x \<and> Q x \<and> c) xs = (c \<and> list_ex (\<lambda>x. P x \<and> Q x) xs)"
  by (induction xs) auto

lemma defined_string:
  "((\<exists>y. v = Some y) \<and> (case v of None \<Rightarrow> False | Some (JStr x) \<Rightarrow> True | Some _ \<Rightarrow> False))
     = (case v of None \<Rightarrow> False | Some (JStr x) \<Rightarrow> True | Some _ \<Rightarrow> False)"
  by (cases v) auto

lemma isValid_eq: "isValidJsonRpcResponse v = Inr (well_formed_envelope v)"
proof (cases v)
  case (JObj kvs)
  have "list_ex (\<lambda>field. (\<exists>y. map_of kvs field = Some y)
            \<and> (case map_of kvs field of None \<Rightarrow> False | Some (JStr x) \<Rightarrow> True | Some _ \<Rightarrow> False)
            \<and> (\<not> truthy_opt (map_of kvs ''result'') \<and> \<not> truthy_opt (map_of kvs ''error'')))
          phpErrorFields
        = ((\<not> truthy_opt (map_of kvs ''result'') \<and> \<not> truthy_opt (map_of kvs ''error''))
           \<and> list_ex (\<lambda>field. case map_of kvs field of None \<Rightarrow> False
                 | Some (JStr x) \<Rightarrow> True | Some _ \<Rightarrow> False) phpErrorFields)"
    by (simp only: list_ex_guard defined_string)
  then show ?thesis
    using JObj
    by (simp add: isValidJsonRpcResponse_def well_formed_envelope_def bindE_def
          typeof_string_case Let_def)
qed (simp_all add: isValidJsonRpcResponse_def well_formed_envelope_def bindE_def)

lemma convert_null:
  "convertServerErrorToJsonRpc d JNull
     = JObj [(''jsonrpc'', JStr ''2.0''), (''id'', JNull),
         (''error'', JObj [(''code'', JNum (- 32603)),
            (''message'', JStr ''Invalid server response''),
            (''data'', JObj [(''type'', JStr ''malformed_response''),
                             (''original'', JStr (take 200 d))])])]"
  by (simp add: convertServerErrorToJsonRpc_def convertServerErrorToJsonRpc_try_def bindE_def)

lemma convert_shape:
  "\<exists>i e. convertServerErrorToJsonRpc d p
     = JObj [(''jsonrpc'', JStr ''2.0''), (''id'', i), (''error'', JObj e)]"
proof -
  obtain r where r: "convertServerErrorToJsonRpc_try d p = Inr r"
    using convert_try_total by blast
  then have "\<exists>i e. r = JObj [(''jsonrpc'', JStr ''2.0''), (''id'', i), (''error'', JObj e)]"
    by (cases p)
       (auto simp add: convertServerErrorToJsonRpc_try_def bindE_def Let_def
             split: if_splits)
  then show ?thesis
    using r by (simp add: convertServerErrorToJsonRpc_def)
qed

lemma convert_fields:
  "get_prop (convertServerErrorToJsonRpc d p) ''jsonrpc'' = Inr (Some (JStr ''2.0''))
   \<and> get_prop (convertServerErrorToJsonRpc d p) ''result'' = Inr None
   \<and> (\<exists>e. get_prop (convertServerErrorToJsonRpc d p) ''error'' = Inr (Some (JObj e)))"
proof -
  obtain i e where "convertServerErrorToJsonRpc d p
     = JObj [(''jsonrpc'', JStr ''2.0''), (''id'', i), (''error'', JObj e)]"
    using convert_shape by blast
  then show ?thesis by simp
qed

lemma convert_well_formed: "well_formed_envelope (convertServerErrorToJsonRpc d p)"
proof -
  obtain i e where "convertServerErrorToJsonRpc d p
     = JObj [(''jsonrpc'', JStr ''2.0''), (''id'', i), (''error'', JObj e)]"
    using convert_shape by blast
  then show ?thesis by (simp add: well_formed_envelope_def)
qed

lemma handleJSON_parsed:
  "parse (concat chunks) = Inr parsed \<Longrightarrow>
   handleJSONResponse parse chunks End
     = Resolved (if well_formed_envelope parsed then parsed
                 else convertServerErrorToJsonRpc (concat chunks) parsed)"
  by (simp add: handleJSONResponse_def bindE_def isValid_eq)

lemma handleJSON_unparsed:
  "parse (concat chunks) = Inl e \<Longrightarrow>
   handleJSONResponse parse chunks End
     = Resolved (convertServerErrorToJsonRpc (concat chunks) JNull)"
  by (simp add: handleJSONResponse_def bindE_def)

section \<open>One attempt after another\<close>

text \<open>
  The four cases of a call of \<^verbatim>\<open>sendToServerWithRetry\<close>; a run of calls, of which all
  but the last find their request rejected and go on; what a call that returns leaves
  unchanged; and a run without end, which does not return.
\<close>

lemma retry_resolved:
  "dispatch env request (attempts s) = Resolved v \<Longrightarrow>
   sendToServerWithRetry env cfg request a s
     = Some (Resolved v, s\<lparr>attempts := attempts s + 1\<rparr>)"
  by (subst sendToServerWithRetry.simps) (simp add: sendToServer_def)

lemma retry_pending:
  "dispatch env request (attempts s) = Pending \<Longrightarrow>
   sendToServerWithRetry env cfg request a s
     = Some (Pending, s\<lparr>attempts := attempts s + 1\<rparr>)"
  by (subst sendToServerWithRetry.simps) (simp add: sendToServer_def)

lemma retry_exhausted:
  "dispatch env request (attempts s) = Rejected e \<Longrightarrow>
   number_le (maxRetries (retry cfg)) a \<Longrightarrow>
   sendToServerWithRetry env cfg request a s
     = Some (Rejected e, s\<lparr>attempts := attempts s + 1\<rparr>)"
  by (subst sendToServerWithRetry.simps) (simp add: sendToServer_def)

lemma retry_again:
  "dispatch env request (attempts s) = Rejected e \<Longrightarrow>
   \<not> number_le (maxRetries (retry cfg)) a \<Longrightarrow>
   sendToServerWithRetry env cfg request a s
     = sendToServerWithRetry env cfg request (number_plus (nearest_number env) a (Fin 1))
         (s\<lparr>attempts := attempts s + 1,
            sleeps := sleeps s @ [calculateBackoffDelay (nearest_number env) (retry cfg)
                        (Math_random env (length (sleeps s))) a]\<rparr>)"
  by (subst sendToServerWithRetry.simps) (simp add: sendToServer_def Let_def)

lemma same_but_sent_step:
  "same_but_sent (s\<lparr>attempts := k, sleeps := d\<rparr>) s' \<Longrightarrow> same_but_sent s s'"
  by (simp add: same_but_sent_def)

lemma retry_run:
  assumes "\<forall>i<j. (\<exists>e. dispatch env request (attempts s + i) = Rejected e)
             \<and> \<not> number_le (maxRetries (retry cfg))
                   (((\<lambda>a. number_plus (nearest_number env) a (Fin 1)) ^^ i) a)"
    and "(\<forall>e. dispatch env request (attempts s + j) \<noteq> Rejected e)
         \<or> number_le (maxRetries (retry cfg))
              (((\<lambda>a. number_plus (nearest_number env) a (Fin 1)) ^^ j) a)"
  shows "\<exists>s'. sendToServerWithRetry env cfg request a s
                 = Some (dispatch env request (attempts s + j), s')
            \<and> same_but_sent s s' \<and> attempts s' = attempts s + j + 1"
  using assms
proof (induction j arbitrary: a s)
  case 0
  show ?case
  proof (cases "dispatch env request (attempts s)")
    case Pending
    then show ?thesis by (simp add: retry_pending same_but_sent_def)
  next
    case (Resolved v)
    then show ?thesis by (simp add: retry_resolved same_but_sent_def)
  next
    case (Rejected e)
    with 0(2) have "number_le (maxRetries (retry cfg)) a" by simp
    with Rejected show ?thesis by (simp add: retry_exhausted same_but_sent_def)
  qed
next
  case (Suc j)
  let ?inc = "\<lambda>a. number_plus (nearest_number env) a (Fin 1)"
  from Suc.prems(1) have "(\<exists>e. dispatch env request (attempts s + 0) = Rejected e)
       \<and> \<not> number_le (maxRetries (retry cfg)) ((?inc ^^ 0) a)" by blast
  then obtain e where e: "dispatch env request (attempts s) = Rejected e"
    and ne: "\<not> number_le (maxRetries (retry cfg)) a" by auto
  define s1 where "s1 = s\<lparr>attempts := attempts s + 1,
            sleeps := sleeps s @ [calculateBackoffDelay (nearest_number env) (retry cfg)
                        (Math_random env (length (sleeps s))) a]\<rparr>"
  have step: "sendToServerWithRetry env cfg request a s
                = sendToServerWithRetry env cfg request (?inc a) s1"
    using retry_again [OF e ne] by (simp add: s1_def)
  have a1: "attempts s1 = attempts s + 1" by (simp add: s1_def)
  have sh: "(?inc ^^ i) (?inc a) = (?inc ^^ Suc i) a" for i
    by (simp only: funpow_Suc_right o_apply)
  have 1: "\<forall>i<j. (\<exists>e. dispatch env request (attempts s1 + i) = Rejected e)
             \<and> \<not> number_le (maxRetries (retry cfg)) ((?inc ^^ i) (?inc a))"
  proof (intro allI impI)
    fix i assume "i < j"
    then have "Suc i < Suc j" by simp
    with Suc.prems(1) have "(\<exists>e. dispatch env request (attempts s + Suc i) = Rejected e)
       \<and> \<not> number_le (maxRetries (retry cfg)) ((?inc ^^ Suc i) a)" by blast
    then show "(\<exists>e. dispatch env request (attempts s1 + i) = Rejected e)
             \<and> \<not> number_le (maxRetries (retry cfg)) ((?inc ^^ i) (?inc a))"
      by (simp only: sh a1) simp
  qed
  have 2: "(\<forall>e. dispatch env request (attempts s1 + j) \<noteq> Rejected e)
         \<or> number_le (maxRetries (retry cfg)) ((?inc ^^ j) (?inc a))"
    using Suc.prems(2) by (simp only: sh a1) simp
  obtain s' where s': "sendToServerWithRetry env cfg request (?inc a) s1
                 = Some (dispatch env request (attempts s1 + j), s')"
      "same_but_sent s1 s'" "attempts s' = attempts s1 + j + 1"
    using Suc.IH [OF 1 2] by blast
  have "same_but_sent s s'" using s'(2) unfolding s1_def by (rule same_but_sent_step)
  then show ?case using s' step a1 by simp
qed

lemma retry_frame:
  assumes "sendToServerWithRetry env cfg request a s = Some y"
  shows "same_but_sent s (snd y)"
proof (rule sendToServerWithRetry.raw_induct
         [where P = "\<lambda>env cfg request a s y. same_but_sent s (snd y)", OF _ assms], goal_cases)
  case (1 f env cfg request a s y)
  show ?case
  proof (cases "dispatch env request (attempts s)")
    case Pending
    with 1(2) show ?thesis by (auto simp add: sendToServer_def same_but_sent_def)
  next
    case (Resolved v)
    with 1(2) show ?thesis by (auto simp add: sendToServer_def same_but_sent_def)
  next
    case (Rejected e)
    show ?thesis
    proof (cases "number_le (maxRetries (retry cfg)) a")
      case True
      with Rejected 1(2) show ?thesis by (auto simp add: sendToServer_def same_but_sent_def)
    next
      case False
      with Rejected 1(2) have "f env cfg request (number_plus (nearest_number env) a (Fin 1))
         (s\<lparr>attempts := attempts s + 1,
            sleeps := sleeps s @ [calculateBackoffDelay (nearest_number env) (retry cfg)
                        (Math_random env (length (sleeps s))) a]\<rparr>) = Some y"
        by (simp add: sendToServer_def Let_def)
      from 1(1) [OF this] show ?thesis by (rule same_but_sent_step)
    qed
  qed
qed

lemma retry_without_end_aux:
  assumes "sendToServerWithRetry env cfg request a s = Some y"
  shows "\<not> (\<forall>j. (\<exists>e. dispatch env request (attempts s + j) = Rejected e)
          \<and> \<not> number_le (maxRetries (retry cfg))
                (((\<lambda>a. number_plus (nearest_number env) a (Fin 1)) ^^ j) a))"
proof (rule sendToServerWithRetry.raw_induct
         [where P = "\<lambda>env cfg request a s y.
            \<not> (\<forall>j. (\<exists>e. dispatch env request (attempts s + j) = Rejected e)
                \<and> \<not> number_le (maxRetries (retry cfg))
                      (((\<lambda>a. number_plus (nearest_number env) a (Fin 1)) ^^ j) a))",
          OF _ assms], goal_cases)
  case (1 f env cfg request a s y)
  let ?inc = "\<lambda>a. number_plus (nearest_number env) a (Fin 1)"
  show ?case
  proof
    assume q: "\<forall>j. (\<exists>e. dispatch env request (attempts s + j) = Rejected e)
          \<and> \<not> number_le (maxRetries (retry cfg)) ((?inc ^^ j) a)"
    from q have "(\<exists>e. dispatch env request (attempts s + 0) = Rejected e)
          \<and> \<not> number_le (maxRetries (retry cfg)) ((?inc ^^ 0) a)" by blast
    then obtain e where e: "dispatch env request (attempts s) = Rejected e"
      and ne: "\<not> number_le (maxRetries (retry cfg)) a" by auto
    define s1 where "s1 = s\<lparr>attempts := attempts s + 1,
            sleeps := sleeps s @ [calculateBackoffDelay (nearest_number env) (retry cfg)
                        (Math_random env (length (sleeps s))) a]\<rparr>"
    have "f env cfg request (?inc a) s1 = Some y"
      using e ne 1(2) by (simp add: sendToServer_def Let_def s1_def)
    from 1(1) [OF this]
    have n: "\<not> (\<forall>j. (\<exists>e. dispatch env request (attempts s1 + j) = Rejected e)
          \<and> \<not> number_le (maxRetries (retry cfg)) ((?inc ^^ j) (?inc a)))" .
    have sh: "(?inc ^^ i) (?inc a) = (?inc ^^ Suc i) a" for i
      by (simp only: funpow_Suc_right o_apply)
    have a1: "attempts s1 = attempts s + 1" by (simp add: s1_def)
    have "\<forall>j. (\<exists>e. dispatch env request (attempts s1 + j) = Rejected e)
          \<and> \<not> number_le (maxRetries (retry cfg)) ((?inc ^^ j) (?inc a))"
    proof
      fix j
      from q have "(\<exists>e. dispatch env request (attempts s + Suc j) = Rejected e)
          \<and> \<not> number_le (maxRetries (retry cfg)) ((?inc ^^ Suc j) a)" by blast
      then show "(\<exists>e. dispatch env request (attempts s1 + j) = Rejected e)
          \<and> \<not> number_le (maxRetries (retry cfg)) ((?inc ^^ j) (?inc a))"
        by (simp only: sh a1) simp
    qed
    with n show False by blast
  qed
qed

lemma retry_without_end:
  assumes "\<forall>k. attempts s \<le> k \<longrightarrow> (\<exists>e. dispatch env request k = Rejected e)"
    and "\<forall>j. \<not> number_le (maxRetries (retry cfg))
                (((\<lambda>a. number_plus (nearest_number env) a (Fin 1)) ^^ j) a)"
  shows "sendToServerWithRetry env cfg request a s = None"
proof (cases "sendToServerWithRetry env cfg request a s")
  case None
  then show ?thesis .
next
  case (Some y)
  from retry_without_end_aux [OF this] assms show ?thesis by simp
qed

lemma attempt_no_count:
  "counts_to env n \<Longrightarrow> j \<le> n \<Longrightarrow> attempt_no env j = Fin (real j)"
proof (induction j)
  case 0
  then show ?case by (simp add: attempt_no_def)
next
  case (Suc j)
  then have "attempt_no env j = Fin (real j)" by simp
  moreover have "nearest_number env (real j + 1) = Fin (real j + 1)"
    using Suc.prems by (simp add: counts_to_def)
  ultimately show ?case by (simp add: attempt_no_def add.commute)
qed

lemma exhausted_budget:
  assumes "retry_budget (maxRetries (retry cfg)) = Some n" and "counts_to env n"
  shows "exhausted env cfg n" and "j < n \<Longrightarrow> \<not> exhausted env cfg j"
proof -
  show "exhausted env cfg n"
  proof (cases "maxRetries (retry cfg)")
    case (Fin x)
    then have n: "n = nat \<lceil>x\<rceil>" using assms(1) by (simp add: retry_budget_def)
    have "x \<le> real_of_int \<lceil>x\<rceil>" by (rule le_of_int_ceiling)
    also have "\<dots> \<le> real (nat \<lceil>x\<rceil>)" by simp
    finally show ?thesis
      using Fin attempt_no_count [OF assms(2), of n] by (simp add: exhausted_def n)
  next
    case NegInf
    then show ?thesis
      using attempt_no_count [OF assms(2), of n] by (simp add: exhausted_def)
  qed (use assms(1) in \<open>simp_all add: retry_budget_def\<close>)
  show "\<not> exhausted env cfg j" if "j < n"
  proof (cases "maxRetries (retry cfg)")
    case (Fin x)
    then have n: "n = nat \<lceil>x\<rceil>" using assms(1) by (simp add: retry_budget_def)
    have "int j < \<lceil>x\<rceil>" using that n by simp
    then have "real j < x" by (simp add: less_ceiling_iff)
    then show ?thesis
      using Fin attempt_no_count [OF assms(2), of j] that by (simp add: exhausted_def)
  next
    case NegInf
    then show ?thesis using assms(1) that by (simp add: retry_budget_def)
  qed (use assms(1) in \<open>simp_all add: retry_budget_def\<close>)
qed

lemma retry_from_zero:
  assumes "\<forall>i<j. (\<exists>e. dispatch env request (attempts s + i) = Rejected e)
             \<and> \<not> exhausted env cfg i"
    and "(\<forall>e. dispatch env request (attempts s + j) \<noteq> Rejected e) \<or> exhausted env cfg j"
  shows "\<exists>s'. sendToServerWithRetry env cfg request (Fin 0) s
                 = Some (dispatch env request (attempts s + j), s')
            \<and> same_but_sent s s' \<and> attempts s' = attempts s + j + 1"
  using retry_run [of j env request s cfg "Fin 0"] assms
  by (simp add: exhausted_def attempt_no_def)

lemma retry_returns:
  assumes "retry_ends env cfg request (attempts s)"
  shows "\<exists>j s'. sendToServerWithRetry env cfg request (Fin 0) s
                 = Some (dispatch env request (attempts s + j), s')
            \<and> same_but_sent s s' \<and> attempts s' = attempts s + j + 1"
proof -
  let ?P = "\<lambda>j. exhausted env cfg j \<or> (\<forall>e. dispatch env request (attempts s + j) \<noteq> Rejected e)"
  have "\<exists>j. ?P j" using assms by (simp add: retry_ends_def)
  then obtain j where j: "?P j" "\<forall>i<j. \<not> ?P i"
    using exists_least_iff [of ?P] by blast
  have 1: "\<forall>i<j. (\<exists>e. dispatch env request (attempts s + i) = Rejected e)
             \<and> \<not> exhausted env cfg i"
    using j(2) by blast
  have 2: "(\<forall>e. dispatch env request (attempts s + j) \<noteq> Rejected e) \<or> exhausted env cfg j"
    using j(1) by blast
  from retry_from_zero [OF 1 2] show ?thesis by blast
qed

lemma retry_settled:
  assumes "\<forall>k. dispatch env request k \<noteq> Pending"
    and "retry_ends env cfg request (attempts s)"
  shows "\<exists>r s1. sendToServerWithRetry env cfg request (Fin 0) s = Some (r, s1)
            \<and> r \<noteq> Pending \<and> same_but_sent s s1"
  using retry_returns [OF assms(2)] assms(1) by metis

lemma retry_resolves:
  assumes "resolves_after env cfg request (attempts s) j v"
  shows "\<exists>s'. sendToServerWithRetry env cfg request (Fin 0) s = Some (Resolved v, s')
            \<and> same_but_sent s s' \<and> attempts s' = attempts s + j + 1"
proof -
  have 1: "\<forall>i<j. (\<exists>e. dispatch env request (attempts s + i) = Rejected e)
             \<and> \<not> exhausted env cfg i"
    and 2: "dispatch env request (attempts s + j) = Resolved v"
    using assms by (simp_all add: resolves_after_def)
  have 3: "(\<forall>e. dispatch env request (attempts s + j) \<noteq> Rejected e) \<or> exhausted env cfg j"
    using 2 by simp
  from retry_from_zero [OF 1 3] 2 show ?thesis by simp
qed

section \<open>The branches of the message loop\<close>

text \<open>
  What each branch writes when the calls for the request resolve; and that each branch,
  for a request with an id that is not \<^verbatim>\<open>null\<close> whose calls end and whose requests
  settle, either writes one envelope with that id or throws without writing
  (\<open>step_ok\<close>).
\<close>

lemma map_of_set_prop: "map_of (set_prop k v kvs) k = Some v"
  by (induction kvs) auto

lemma written_with_id:
  assumes "requestId \<noteq> JNull"
    and "stdout s' = stdout s @ [Some (if requestId \<noteq> JNull
                                       then JObj (set_prop ''id'' requestId kvs) else v)]"
  shows "writes_with_id requestId s s'"
  using assms by (simp add: writes_with_id_def map_of_set_prop)

lemma handle_direct_effect:
  assumes "sendToServerWithRetry env cfg (Some parsed) (Fin 0) s = Some (Resolved v, s1)"
  shows "\<exists>s'. handle_direct env cfg parsed requestId s = Some (None, s')
       \<and> stdout s' = stdout s @ [Some (if requestId \<noteq> JNull
                                   then JObj (set_prop ''id'' requestId (spread (Some v)))
                                   else v)]"
proof -
  have "same_but_sent s s1" using retry_frame [OF assms] by simp
  then show ?thesis
    using assms
    by (simp add: handle_direct_def alloc_def with_request_id_def write_stdout_def deref_def
          same_but_sent_def nth_append)
qed

lemma handle_initialize_effect:
  assumes "sendToServerWithRetry env cfg (Some parsed) (Fin 0) s = Some (Resolved v, s1)"
    and "\<forall>k. retry_ends env cfg (Some initNotification) k"
  shows "\<exists>s'. handle_initialize env cfg parsed requestId s = Some (None, s')
       \<and> stdout s' = stdout s @ [Some (if requestId \<noteq> JNull
                                   then JObj (set_prop ''id'' requestId (spread (Some v)))
                                   else v)]"
proof -
  have fr: "stdout s1 = stdout s"
    using retry_frame [OF assms(1)] by (simp add: same_but_sent_def)
  obtain a s2 where a: "alloc v s1 = (a, s2)" by (cases "alloc v s1")
  obtain a' s3 where w: "with_request_id requestId a s2 = (a', s3)"
    by (cases "with_request_id requestId a s2")
  have st: "stdout (write_stdout a' s3)
              = stdout s @ [Some (if requestId \<noteq> JNull
                                  then JObj (set_prop ''id'' requestId (spread (Some v)))
                                  else v)]"
    using a w fr
    by (auto simp add: alloc_def with_request_id_def write_stdout_def deref_def nth_append
          split: if_splits)
  have "retry_ends env cfg (Some initNotification) (attempts (write_stdout a' s3))"
    using assms(2) by blast
  then obtain j s4 where n: "sendToServerWithRetry env cfg (Some initNotification) (Fin 0)
        (write_stdout a' s3)
          = Some (dispatch env (Some initNotification) (attempts (write_stdout a' s3) + j), s4)"
      "same_but_sent (write_stdout a' s3) s4"
    using retry_returns by blast
  have "stdout s4 = stdout (write_stdout a' s3)"
    using n(2) by (simp add: same_but_sent_def)
  then show ?thesis
    using assms(1) a w n(1) st by (simp add: handle_initialize_def)
qed

lemma handle_cache_hit_effect:
  assumes "deref s c = Some cv"
  shows "\<exists>s'. handle_cache_hit requestId c s = (None, s')
       \<and> toolCache s' = toolCache s \<and> cacheTimestamps s' = cacheTimestamps s
       \<and> deref s' c = Some cv
       \<and> stdout s' = stdout s @ [Some (JObj (if requestId \<noteq> JNull
                                   then set_prop ''id'' requestId (spread (Some cv))
                                   else spread (Some cv)))]"
proof -
  have c: "c < length (store s)" "store s ! c = cv"
    using assms by (auto simp: deref_def split: if_splits)
  show ?thesis
    using c assms
    by (simp add: handle_cache_hit_def alloc_def assign_prop_def deref_def write_stdout_def
          nth_append nth_list_update)
qed

lemma handle_cache_miss_effect:
  assumes "sendToServerWithRetry env cfg (Some parsed) (Fin 0) s = Some (Resolved v, s1)"
  shows "\<exists>s'. handle_cache_miss env cfg parsed requestId cacheKey s = Some (None, s')
       \<and> toolCache s' cacheKey = Some (length (store s))
       \<and> cacheTimestamps s' cacheKey = Some (Date_now env (clock_reads s))
       \<and> deref s' (length (store s)) = Some v
       \<and> stdout s' = stdout s @ [Some (if requestId \<noteq> JNull
                                   then JObj (set_prop ''id'' requestId (spread (Some v)))
                                   else v)]"
proof -
  have "same_but_sent s s1" using retry_frame [OF assms] by simp
  then show ?thesis
    using assms
    by (simp add: handle_cache_miss_def alloc_def read_clock_def setCachedResponse_def
          with_request_id_def write_stdout_def deref_def same_but_sent_def nth_append)
qed

lemma step_ok_cong: "step_ok i s res \<Longrightarrow> stdout s0 = stdout s \<Longrightarrow> step_ok i s0 res"
  by (auto simp: step_ok_def writes_with_id_def split: prod.splits option.splits)

lemma handle_direct_ok:
  assumes "requestId \<noteq> JNull" and "\<forall>k. dispatch env (Some parsed) k \<noteq> Pending"
    and "retry_ends env cfg (Some parsed) (attempts s)"
  shows "\<exists>res. handle_direct env cfg parsed requestId s = Some res \<and> step_ok requestId s res"
proof -
  obtain r s1 where r: "sendToServerWithRetry env cfg (Some parsed) (Fin 0) s = Some (r, s1)"
      "r \<noteq> Pending" "same_but_sent s s1"
    using retry_settled [OF assms(2,3)] by blast
  show ?thesis
  proof (cases r)
    case Pending
    with r(2) show ?thesis by simp
  next
    case (Rejected e)
    with r show ?thesis by (simp add: handle_direct_def step_ok_def same_but_sent_def)
  next
    case (Resolved v)
    then obtain s' where "handle_direct env cfg parsed requestId s = Some (None, s')"
        "stdout s' = stdout s @ [Some (if requestId \<noteq> JNull
                                   then JObj (set_prop ''id'' requestId (spread (Some v)))
                                   else v)]"
      using handle_direct_effect [of env cfg parsed s v s1 requestId] r(1) by blast
    then show ?thesis
      using written_with_id [OF assms(1), of s' s] by (simp add: step_ok_def)
  qed
qed

lemma handle_initialize_ok:
  assumes "requestId \<noteq> JNull" and "\<forall>k. dispatch env (Some parsed) k \<noteq> Pending"
    and "retry_ends env cfg (Some parsed) (attempts s)"
    and "\<forall>k. retry_ends env cfg (Some initNotification) k"
  shows "\<exists>res. handle_initialize env cfg parsed requestId s = Some res
            \<and> step_ok requestId s res"
proof -
  obtain r s1 where r: "sendToServerWithRetry env cfg (Some parsed) (Fin 0) s = Some (r, s1)"
      "r \<noteq> Pending" "same_but_sent s s1"
    using retry_settled [OF assms(2,3)] by blast
  show ?thesis
  proof (cases r)
    case Pending
    with r(2) show ?thesis by simp
  next
    case (Rejected e)
    with r show ?thesis by (simp add: handle_initialize_def step_ok_def same_but_sent_def)
  next
    case (Resolved v)
    then obtain s' where "handle_initialize env cfg parsed requestId s = Some (None, s')"
        "stdout s' = stdout s @ [Some (if requestId \<noteq> JNull
                                   then JObj (set_prop ''id'' requestId (spread (Some v)))
                                   else v)]"
      using handle_initialize_effect [of env cfg parsed s v s1 requestId] r(1) assms(4)
      by blast
    then show ?thesis
      using written_with_id [OF assms(1), of s' s] by (simp add: step_ok_def)
  qed
qed

lemma handle_cache_miss_ok:
  assumes "requestId \<noteq> JNull" and "\<forall>k. dispatch env (Some parsed) k \<noteq> Pending"
    and "retry_ends env cfg (Some parsed) (attempts s)"
  shows "\<exists>res. handle_cache_miss env cfg parsed requestId cacheKey s = Some res
            \<and> step_ok requestId s res"
proof -
  obtain r s1 where r: "sendToServerWithRetry env cfg (Some parsed) (Fin 0) s = Some (r, s1)"
      "r \<noteq> Pending" "same_but_sent s s1"
    using retry_settled [OF assms(2,3)] by blast
  show ?thesis
  proof (cases r)
    case Pending
    with r(2) show ?thesis by simp
  next
    case (Rejected e)
    with r show ?thesis by (simp add: handle_cache_miss_def step_ok_def same_but_sent_def)
  next
    case (Resolved v)
    then obtain s' where "handle_cache_miss env cfg parsed requestId cacheKey s = Some (None, s')"
        "stdout s' = stdout s @ [Some (if requestId \<noteq> JNull
                                   then JObj (set_prop ''id'' requestId (spread (Some v)))
                                   else v)]"
      using handle_cache_miss_effect [of env cfg parsed s v s1 requestId cacheKey] r(1)
      by blast
    then show ?thesis
      using written_with_id [OF assms(1), of s' s] by (simp add: step_ok_def)
  qed
qed

lemma handle_cache_hit_ok:
  assumes "requestId \<noteq> JNull" and "truthy_opt (deref s c)"
  shows "step_ok requestId s (handle_cache_hit requestId c s)"
proof -
  obtain cv where "deref s c = Some cv" using assms(2) by (cases "deref s c") auto
  from handle_cache_hit_effect [OF this, of requestId] assms(1)
  show ?thesis
    by (auto simp add: step_ok_def writes_with_id_def map_of_set_prop)
qed

text \<open>The lookup in the cache changes the two maps of the cache and nothing else.\<close>

lemma lookup_frame:
  assumes "getCachedResponse key now s0 = (cr, s1)"
  shows "stdout s1 = stdout s0" and "attempts s1 = attempts s0" and "store s1 = store s0"
  using assms by (auto simp add: getCachedResponse_def Let_def split: if_splits)

lemma handle_cacheable_unfold:
  assumes "getCacheKey env parsed = Inr key"
    and "getCachedResponse key (Date_now env (clock_reads s))
           (s\<lparr>clock_reads := clock_reads s + 1\<rparr>) = (cr, s1)"
  shows "handle_cacheable env cfg parsed requestId s =
      (case cr of None \<Rightarrow> handle_cache_miss env cfg parsed requestId key s1
       | Some c \<Rightarrow> if truthy_opt (deref s1 c) then Some (handle_cache_hit requestId c s1)
                   else handle_cache_miss env cfg parsed requestId key s1)"
  using assms by (simp add: handle_cacheable_def read_clock_def)

lemma handle_cacheable_ok:
  assumes "requestId \<noteq> JNull" and "\<forall>k. dispatch env (Some parsed) k \<noteq> Pending"
    and "retry_ends env cfg (Some parsed) (attempts s)"
  shows "\<exists>res. handle_cacheable env cfg parsed requestId s = Some res
            \<and> step_ok requestId s res"
proof (cases "getCacheKey env parsed")
  case (Inl e)
  then show ?thesis by (simp add: handle_cacheable_def step_ok_def)
next
  case (Inr key)
  obtain cr s1 where g: "getCachedResponse key (Date_now env (clock_reads s))
           (s\<lparr>clock_reads := clock_reads s + 1\<rparr>) = (cr, s1)"
    by (cases "getCachedResponse key (Date_now env (clock_reads s))
           (s\<lparr>clock_reads := clock_reads s + 1\<rparr>)")
  have st: "stdout s1 = stdout s" and at: "attempts s1 = attempts s"
    using lookup_frame [OF g] by simp_all
  note e = handle_cacheable_unfold [OF Inr g, of cfg requestId]
  have re: "retry_ends env cfg (Some parsed) (attempts s1)" using assms(3) at by simp
  note miss = handle_cache_miss_ok [OF assms(1,2) re, of key]
  have "\<exists>res. handle_cacheable env cfg parsed requestId s = Some res
            \<and> step_ok requestId s1 res"
  proof (cases cr)
    case None
    with e miss show ?thesis by simp
  next
    case (Some c)
    show ?thesis
    proof (cases "truthy_opt (deref s1 c)")
      case True
      with e Some handle_cache_hit_ok [OF assms(1) True] show ?thesis by simp
    next
      case False
      with e Some miss show ?thesis by simp
    qed
  qed
  then show ?thesis using st step_ok_cong by metis
qed

lemma handle_request_ok:
  assumes "requestId \<noteq> JNull" and "\<forall>k. dispatch env (Some parsed) k \<noteq> Pending"
    and "retry_ends env cfg (Some parsed) (attempts s)"
    and "requested = Some (JStr ''initialize'')
         \<longrightarrow> (\<forall>k. retry_ends env cfg (Some initNotification) k)"
  shows "\<exists>res. handle_request env cfg parsed requestId requested s = Some res
            \<and> step_ok requestId s res"
proof (cases "requested = Some (JStr ''initialize'')")
  case True
  then show ?thesis
    using handle_initialize_ok [OF assms(1,2,3)] assms(4) by (simp add: handle_request_def)
next
  case False
  show ?thesis
  proof (cases "shouldCache cfg parsed")
    case (Inl e)
    with False show ?thesis by (simp add: handle_request_def step_ok_def)
  next
    case (Inr b)
    with False show ?thesis
      using handle_cacheable_ok [OF assms(1,2,3)] handle_direct_ok [OF assms(1,2,3)]
      by (cases b) (simp_all add: handle_request_def)
  qed
qed

section \<open>A request that is forwarded\<close>

lemmas sample_text_defs = tools_list_line_def no_id_line_def progress_line_def
  tools_call_line_def initialize_line_def hostile_line_def tools_body_def both_body_def
  partial_body_def php_body_def

text \<open>
  A request that is forwarded passes the first call of the log and the test for a
  notification; if it is cacheable the lookup finds nothing to use; and the line written
  for it is the value that its calls resolve with, under the id of the request.
\<close>

lemma get_prop_object: "get_prop parsed k = Inr m \<Longrightarrow> \<exists>i. get_prop parsed k' = Inr i"
  by (cases parsed) simp_all

lemma handling_request_text_ok:
  assumes "get_prop parsed ''method'' = Inr m"
    and "case m of None \<Rightarrow> True | Some (JStr t) \<Rightarrow> True | Some v \<Rightarrow> \<not> truthy v"
    and "\<not> ToString_throws requestId"
  shows "\<exists>line. handling_request_text env c parsed requestId = Inr line"
proof -
  have "\<exists>t. or_default m (JStr ''unknown'') = JStr t"
    using assms(2) by (auto simp add: or_default_def split: option.splits json.splits)
  then obtain t where t: "or_default m (JStr ''unknown'') = JStr t" by blast
  have n: "ToString env (Some (JStr t)) = Inr t" by (simp add: ToString_def)
  have "\<exists>i. ToString env (Some requestId) = Inr i"
    using assms(3) by (cases requestId) (simp_all add: ToString_def)
  then obtain i where i: "ToString env (Some requestId) = Inr i" by blast
  show ?thesis
    by (simp add: handling_request_text_def bindE_def assms(1) t n i)
qed

lemma handle_parsed_forward:
  assumes "get_prop parsed ''method'' = Inr m"
    and "case m of None \<Rightarrow> True | Some (JStr t) \<Rightarrow> \<not> startsWith t ''notifications/''
         | Some v \<Rightarrow> \<not> truthy v"
    and "\<not> ToString_throws requestId"
  shows "handle_parsed env cfg parsed requestId s
           = handle_request env cfg parsed requestId m s"
proof -
  have "case m of None \<Rightarrow> True | Some (JStr t) \<Rightarrow> True | Some v \<Rightarrow> \<not> truthy v"
    using assms(2) by (simp split: option.splits json.splits)
  then obtain line where "handling_request_text env (requestCounter s) parsed requestId = Inr line"
    using handling_request_text_ok [OF assms(1) _ assms(3)] by blast
  then show ?thesis
    using assms(1,2) by (simp add: handle_parsed_def split: option.splits json.splits)
qed

lemma shouldCache_key:
  assumes "shouldCache cfg parsed = Inr True"
  shows "\<exists>key. getCacheKey env parsed = Inr key"
proof (cases "get_prop parsed ''method''")
  case (Inl e)
  with assms show ?thesis by (simp add: shouldCache_def bindE_def split: if_splits)
next
  case (Inr m)
  then obtain t where "m = Some (JStr t)"
    using assms
    by (auto simp add: shouldCache_def bindE_def split: if_splits option.splits json.splits)
  moreover obtain p where "get_prop parsed ''params'' = Inr p"
    using get_prop_object [OF Inr] by blast
  ultimately show ?thesis
    using Inr by (simp add: getCacheKey_def bindE_def ToString_def)
qed

lemma shouldCache_total:
  "get_prop parsed ''method'' = Inr m \<Longrightarrow> \<exists>b. shouldCache cfg parsed = Inr b"
  by (auto simp add: shouldCache_def bindE_def)

lemma lookup_clock:
  "fst (getCachedResponse key now (s\<lparr>clock_reads := c\<rparr>)) = fst (getCachedResponse key now s)"
  by (simp add: getCachedResponse_def Let_def)

lemma cache_answers_counter:
  "cache_answers env cfg parsed (s\<lparr>requestCounter := r\<rparr>) = cache_answers env cfg parsed s"
  by (auto simp add: cache_answers_def getCachedResponse_def deref_def Let_def
        split: sum.splits option.splits)

lemma handle_cacheable_miss:
  assumes "shouldCache cfg parsed = Inr True" and "\<not> cache_answers env cfg parsed s"
    and "resolves_after env cfg (Some parsed) (attempts s) j v"
  shows "\<exists>s'. handle_cacheable env cfg parsed requestId s = Some (None, s')
       \<and> stdout s' = stdout s @ [Some (if requestId \<noteq> JNull
                                   then JObj (set_prop ''id'' requestId (spread (Some v)))
                                   else v)]"
proof -
  obtain key where key: "getCacheKey env parsed = Inr key"
    using shouldCache_key [OF assms(1)] by blast
  obtain cr s1 where g: "getCachedResponse key (Date_now env (clock_reads s))
           (s\<lparr>clock_reads := clock_reads s + 1\<rparr>) = (cr, s1)"
    by (cases "getCachedResponse key (Date_now env (clock_reads s))
           (s\<lparr>clock_reads := clock_reads s + 1\<rparr>)")
  have st: "stdout s1 = stdout s" and at: "attempts s1 = attempts s"
    and sr: "store s1 = store s"
    using lookup_frame [OF g] by simp_all
  have cr: "cr = fst (getCachedResponse key (Date_now env (clock_reads s)) s)"
    using g lookup_clock [where key = key and now = "Date_now env (clock_reads s)" and s = s
                            and c = "clock_reads s + 1"]
    by simp
  have d: "deref s1 c = deref s c" for c by (simp add: deref_def sr)
  have no: "case cr of None \<Rightarrow> True | Some c \<Rightarrow> \<not> truthy_opt (deref s1 c)"
    using assms(1,2) key cr by (simp add: cache_answers_def d split: option.splits)
  have e: "handle_cacheable env cfg parsed requestId s
             = handle_cache_miss env cfg parsed requestId key s1"
    using handle_cacheable_unfold [OF key g, of cfg requestId] no
    by (simp split: option.splits)
  have "resolves_after env cfg (Some parsed) (attempts s1) j v" using assms(3) at by simp
  then obtain s2 where "sendToServerWithRetry env cfg (Some parsed) (Fin 0) s1
                          = Some (Resolved v, s2)"
    using retry_resolves by blast
  from handle_cache_miss_effect [OF this, of requestId key] e st show ?thesis by auto
qed

lemma handle_request_resolved:
  assumes "get_prop parsed ''method'' = Inr m"
    and "\<not> cache_answers env cfg parsed s"
    and "resolves_after env cfg (Some parsed) (attempts s) j v"
    and "m = Some (JStr ''initialize'')
         \<longrightarrow> (\<forall>k. retry_ends env cfg (Some initNotification) k)"
  shows "\<exists>s'. handle_request env cfg parsed requestId m s = Some (None, s')
       \<and> stdout s' = stdout s @ [Some (if requestId \<noteq> JNull
                                   then JObj (set_prop ''id'' requestId (spread (Some v)))
                                   else v)]"
proof -
  obtain s1 where r: "sendToServerWithRetry env cfg (Some parsed) (Fin 0) s
                        = Some (Resolved v, s1)"
    using retry_resolves [OF assms(3)] by blast
  show ?thesis
  proof (cases "m = Some (JStr ''initialize'')")
    case True
    then show ?thesis
      using handle_initialize_effect [OF r, of requestId] assms(4)
      by (simp add: handle_request_def)
  next
    case False
    obtain b where b: "shouldCache cfg parsed = Inr b"
      using shouldCache_total [OF assms(1)] by blast
    show ?thesis
    proof (cases b)
      case True
      then show ?thesis
        using handle_cacheable_miss [OF _ assms(2,3), of requestId] b False
        by (simp add: handle_request_def)
    next
      case f: False
      then show ?thesis
        using handle_direct_effect [OF r, of requestId] b False
        by (simp add: handle_request_def)
    qed
  qed
qed

lemma incoming_forwarded:
  assumes "JSON_parse env message = Inr parsed"
    and "forwarded env cfg parsed s"
    and "resolves_after env cfg (Some parsed) (attempts s) j v"
    and "get_prop parsed ''method'' = Inr (Some (JStr ''initialize''))
         \<longrightarrow> (\<forall>k. retry_ends env cfg (Some initNotification) k)"
  shows "\<exists>s'. handleIncomingMessage env cfg message s = Some s'
       \<and> stdout s' = stdout s @ [Some (if request_id parsed \<noteq> JNull
                                   then JObj (set_prop ''id'' (request_id parsed)
                                                (spread (Some v)))
                                   else v)]"
proof -
  obtain m where m: "get_prop parsed ''method'' = Inr m"
    using assms(2) by (cases "get_prop parsed ''method''") (simp_all add: forwarded_def)
  have c: "case m of None \<Rightarrow> True | Some (JStr t) \<Rightarrow> \<not> startsWith t ''notifications/''
         | Some v \<Rightarrow> \<not> truthy v"
    using assms(2) m by (simp add: forwarded_def split: option.splits json.splits)
  have t: "\<not> ToString_throws (request_id parsed)"
    and n: "\<not> cache_answers env cfg parsed s"
    using assms(2) by (simp_all add: forwarded_def)
  obtain i where i: "get_prop parsed ''id'' = Inr i"
    using get_prop_object [OF m] by blast
  have rid: "(case i of None \<Rightarrow> JNull | Some v \<Rightarrow> v) = request_id parsed"
    using i by (simp add: request_id_def split: option.splits)
  define s0 where "s0 = s\<lparr>requestCounter := requestCounter s + 1\<rparr>"
  have n0: "\<not> cache_answers env cfg parsed s0"
    using n by (simp add: s0_def cache_answers_counter)
  have r0: "resolves_after env cfg (Some parsed) (attempts s0) j v"
    using assms(3) by (simp add: s0_def)
  have i0: "m = Some (JStr ''initialize'')
         \<longrightarrow> (\<forall>k. retry_ends env cfg (Some initNotification) k)"
    using assms(4) m by simp
  obtain s' where s': "handle_request env cfg parsed (request_id parsed) m s0 = Some (None, s')"
      "stdout s' = stdout s0 @ [Some (if request_id parsed \<noteq> JNull
                                   then JObj (set_prop ''id'' (request_id parsed)
                                                (spread (Some v)))
                                   else v)]"
    using handle_request_resolved [OF m n0 r0 i0, of "request_id parsed"] by blast
  have "handle_parsed env cfg parsed (request_id parsed) s0 = Some (None, s')"
    using handle_parsed_forward [OF m c t, of env cfg s0] s'(1) by simp
  then have "handleIncomingMessage env cfg message s = Some s'"
    using assms(1) i rid by (simp add: handleIncomingMessage_def s0_def)
  then show ?thesis using s'(2) by (simp add: s0_def)
qed


text \<open>The examples: the lines, the counting and the policy of the sample environment.\<close>

lemma parse_lines:
  "sample_parse tools_list_line = Inr tools_list_request"
  "sample_parse no_id_line = Inr no_id_request"
  "sample_parse progress_line = Inr progress_request"
  "sample_parse tools_call_line = Inr tools_call_request"
  "sample_parse initialize_line = Inr initialize_request"
  "sample_parse hostile_line = Inr hostile_request"
  "sample_parse tools_body = Inr tools_response"
  "sample_parse ''not json'' = Inl (SyntaxError ''Unexpected token'')"
  by (simp_all add: sample_parse_def sample_texts_def sample_text_defs)

lemma sample_counts:
  assumes "nearest_number env = sample_round" and "n \<le> 1000"
  shows "counts_to env n"
proof -
  have "sample_round (real k + 1) = Fin (real k + 1)" if "k < n" for k
    using that assms(2) by (intro sample_round_exact) simp_all
  then show ?thesis by (simp add: counts_to_def assms(1))
qed

lemma sample_not_exhausted:
  assumes "nearest_number env = sample_round" and "i < 3"
  shows "\<not> exhausted env sample_config i"
proof -
  have "retry_budget (maxRetries (retry sample_config)) = Some 3"
    by (simp add: retry_budget_def sample_config_def default_retry_def)
  moreover have "counts_to env 3" using sample_counts [OF assms(1)] by simp
  ultimately show ?thesis using exhausted_budget(2) assms(2) by blast
qed

lemma sample_key:
  "getCacheKey (sample_env\<lparr>network := nw\<rparr>) tools_list_request = Inr ''tools/list_{}''"
  "getCacheKey (sample_env\<lparr>network := nw\<rparr>) no_id_request = Inr ''tools/list_{}''"
  by (simp_all add: getCacheKey_def tools_list_request_def no_id_request_def bindE_def
        ToString_def or_default_def sample_env_def sample_stringify_def)

section \<open>Bodies that are not JSON\<close>




section \<open>Bodies that pass through\<close>

text \<open>
  Claim C2, as the code has it.  A body that parses is resolved unchanged exactly when
  the parsed value is an object whose \<^verbatim>\<open>jsonrpc\<close> is the string \<^verbatim>\<open>2.0\<close>, with at least
  one of \<^verbatim>\<open>result\<close> and \<^verbatim>\<open>error\<close> defined, and not with one of \<^verbatim>\<open>message\<close>,
  \<^verbatim>\<open>exception\<close>, \<^verbatim>\<open>file\<close>, \<^verbatim>\<open>line\<close>, \<^verbatim>\<open>trace\<close> a string while \<^verbatim>\<open>result\<close> and \<^verbatim>\<open>error\<close>
  are both falsy (\<open>well_formed_envelope\<close>); in every other case it is replaced by the
  envelope that \<^verbatim>\<open>convertServerErrorToJsonRpc\<close> builds, which differs from it.
\<close>

theorem passthrough_iff:
  assumes "parse (concat chunks) = Inr parsed"
  shows "(handleJSONResponse parse chunks End = Resolved parsed
            \<longleftrightarrow> well_formed_envelope parsed)
       \<and> (\<not> well_formed_envelope parsed \<longrightarrow>
            handleJSONResponse parse chunks End
              = Resolved (convertServerErrorToJsonRpc (concat chunks) parsed))"
proof -
  have "convertServerErrorToJsonRpc (concat chunks) parsed \<noteq> parsed"
    if "\<not> well_formed_envelope parsed"
    using that convert_well_formed [of "concat chunks" parsed] by auto
  then show ?thesis
    using handleJSON_parsed [of parse chunks parsed] assms by auto
qed

text \<open>
  The list of tools passes through; the object of a PHP exception is replaced.
\<close>

theorem passthrough_iff_witness:
  "handleJSONResponse sample_parse [tools_body] End = Resolved tools_response
   \<and> well_formed_envelope tools_response
   \<and> \<not> well_formed_envelope php_response
   \<and> handleJSONResponse sample_parse [php_body] End
       = Resolved (JObj [(''jsonrpc'', JStr ''2.0''), (''id'', JNull),
           (''error'', JObj [(''code'', JNum (- 32603)),
              (''message'', JStr ''Server Error''),
              (''data'', JObj [(''type'', JStr ''server_error''),
                               (''details'', JStr ''RuntimeException'')])])])"
proof -
  have p1: "sample_parse (concat [tools_body]) = Inr tools_response"
    by (simp add: sample_parse_def sample_texts_def sample_text_defs)
  have p2: "sample_parse (concat [php_body]) = Inr php_response"
    by (simp add: sample_parse_def sample_texts_def sample_text_defs)
  have w1: "well_formed_envelope tools_response"
    by (simp add: well_formed_envelope_def tools_response_def phpErrorFields_def)
  have w2: "\<not> well_formed_envelope php_response"
    by (simp add: well_formed_envelope_def php_response_def)
  have c: "convertServerErrorToJsonRpc (concat [php_body]) php_response
       = JObj [(''jsonrpc'', JStr ''2.0''), (''id'', JNull),
           (''error'', JObj [(''code'', JNum (- 32603)),
              (''message'', JStr ''Server Error''),
              (''data'', JObj [(''type'', JStr ''server_error''),
                               (''details'', JStr ''RuntimeException'')])])]"
    by (simp add: convertServerErrorToJsonRpc_def convertServerErrorToJsonRpc_try_def
          bindE_def php_response_def or_else_def or_default_def)
  show ?thesis
    using passthrough_iff [of sample_parse "[tools_body]" tools_response]
          passthrough_iff [of sample_parse "[php_body]" php_response] p1 p2 w1 w2 c
    by simp
qed

text \<open>
  Claim C2 as stated fails: a body with both \<^verbatim>\<open>result\<close> and \<^verbatim>\<open>error\<close> defined passes
  through unchanged.
\<close>

theorem passthrough_iff_counterexample:
  "handleJSONResponse sample_parse [both_body] End = Resolved both_response
   \<and> get_prop both_response ''result'' = Inr (Some (JObj [(''ok'', JBool True)]))
   \<and> get_prop both_response ''error''
       = Inr (Some (JObj [(''code'', JNum (- 1)), (''message'', JStr ''late'')]))"
proof -
  have p: "sample_parse (concat [both_body]) = Inr both_response"
    by (simp add: sample_parse_def sample_texts_def sample_text_defs)
  have w: "well_formed_envelope both_response"
    by (simp add: well_formed_envelope_def both_response_def phpErrorFields_def)
  show ?thesis
    using handleJSON_parsed [of sample_parse "[both_body]" both_response] p w
    by (simp add: both_response_def)
qed

section \<open>The normalizer is total\<close>

text \<open>
  Claim C6, as the code has it.  For every body, however \<^verbatim>\<open>JSON.parse\<close> treats it, the
  handler of a plain response resolves, with an object whose \<^verbatim>\<open>jsonrpc\<close> is \<^verbatim>\<open>2.0\<close> and
  which has at least one of \<^verbatim>\<open>result\<close> and \<^verbatim>\<open>error\<close>; neither the validation nor the
  conversion throws, for any value; and every envelope that
  \<^verbatim>\<open>convertServerErrorToJsonRpc\<close> builds has \<^verbatim>\<open>jsonrpc\<close> \<^verbatim>\<open>2.0\<close>, an \<^verbatim>\<open>error\<close> and no
  \<^verbatim>\<open>result\<close>.
\<close>

theorem normalizer_total:
  "(\<exists>v. handleJSONResponse parse chunks End = Resolved v
        \<and> get_prop v ''jsonrpc'' = Inr (Some (JStr ''2.0''))
        \<and> (\<exists>x. get_prop v ''result'' = Inr (Some x) \<or> get_prop v ''error'' = Inr (Some x)))
   \<and> (\<exists>r. isValidJsonRpcResponse parsed = Inr r)
   \<and> (\<exists>r. convertServerErrorToJsonRpc_try body parsed = Inr r)
   \<and> get_prop (convertServerErrorToJsonRpc body parsed) ''jsonrpc'' = Inr (Some (JStr ''2.0''))
   \<and> get_prop (convertServerErrorToJsonRpc body parsed) ''result'' = Inr None
   \<and> (\<exists>e. get_prop (convertServerErrorToJsonRpc body parsed) ''error'' = Inr (Some (JObj e)))"
proof -
  have wf: "get_prop v ''jsonrpc'' = Inr (Some (JStr ''2.0''))
        \<and> (\<exists>x. get_prop v ''result'' = Inr (Some x) \<or> get_prop v ''error'' = Inr (Some x))"
    if "well_formed_envelope v" for v
    using that by (cases v) (auto simp add: well_formed_envelope_def)
  have "\<exists>v. handleJSONResponse parse chunks End = Resolved v \<and> well_formed_envelope v"
  proof (cases "parse (concat chunks)")
    case (Inl e)
    then show ?thesis
      using handleJSON_unparsed [of parse chunks e] convert_well_formed by simp
  next
    case (Inr p)
    then show ?thesis
      using handleJSON_parsed [of parse chunks p] convert_well_formed by simp
  qed
  then have 1: "\<exists>v. handleJSONResponse parse chunks End = Resolved v
        \<and> get_prop v ''jsonrpc'' = Inr (Some (JStr ''2.0''))
        \<and> (\<exists>x. get_prop v ''result'' = Inr (Some x) \<or> get_prop v ''error'' = Inr (Some x))"
    using wf by blast
  show ?thesis
    using 1 isValid_eq [of parsed] convert_try_total [of body parsed]
      convert_fields [of body parsed]
    by simp
qed

text \<open>An HTML page in two chunks, the empty body, and the object of a PHP exception.\<close>

theorem normalizer_total_witness:
  "handleJSONResponse sample_parse [''<html>'', ''502 Bad Gateway</html>''] End
     = Resolved (malformed_response JNull ''<html>502 Bad Gateway</html>'')
   \<and> handleJSONResponse sample_parse [] End = Resolved (malformed_response JNull [])
   \<and> get_prop (convertServerErrorToJsonRpc php_body php_response) ''result'' = Inr None"
  using normalizer_total [of sample_parse "[''<html>'', ''502 Bad Gateway</html>'']"
          php_response php_body]
  by (simp add: handleJSONResponse_def bindE_def convert_null malformed_response_def
        sample_parse_def sample_texts_def sample_text_defs)

text \<open>
  Claim C6 as stated fails: a body with \<^verbatim>\<open>result\<close> and \<^verbatim>\<open>error\<close> both set is valid for
  \<^verbatim>\<open>isValidJsonRpcResponse\<close>, and the envelope returned for it has both.
\<close>

theorem normalizer_total_counterexample:
  "handleJSONResponse sample_parse [partial_body] End = Resolved partial_response
   \<and> get_prop partial_response ''result'' = Inr (Some (JArr []))
   \<and> get_prop partial_response ''error''
       = Inr (Some (JObj [(''code'', JNum (- 2)), (''message'', JStr ''partial'')]))"
proof -
  have p: "sample_parse (concat [partial_body]) = Inr partial_response"
    by (simp add: sample_parse_def sample_texts_def sample_text_defs)
  have w: "well_formed_envelope partial_response"
    by (simp add: well_formed_envelope_def partial_response_def phpErrorFields_def)
  show ?thesis
    using handleJSON_parsed [of sample_parse "[partial_body]" partial_response] p w
    by (simp add: partial_response_def)
qed

section \<open>The number of attempts\<close>

text \<open>
  Claim C5, as the code has it.  Let \<^verbatim>\<open>maxRetries\<close> be a number other than \<^verbatim>\<open>NaN\<close> and
  \<^verbatim>\<open>Infinity\<close>, and \<open>n\<close> the least natural number that is not below it, which is
  \<^verbatim>\<open>maxRetries\<close> itself when that is a natural number and 0 when it is negative; let the
  engine count to \<open>n\<close>.  If the \<open>n + 1\<close> requests sent from now on are all rejected,
  exactly \<open>n + 1\<close> requests are sent and the call rejects with the failure of the last
  one; if the first \<open>j\<close> of them are rejected and the next one resolves, for some
  \<open>j \<le> n\<close>, exactly \<open>j + 1\<close> requests are sent and the call resolves with that value.
\<close>

theorem retry_attempts:
  assumes "retry_budget (maxRetries (retry cfg)) = Some n" and "counts_to env n"
  shows "((\<forall>k. attempts s \<le> k \<and> k \<le> attempts s + n
              \<longrightarrow> (\<exists>e. dispatch env request k = Rejected e))
          \<longrightarrow> (\<exists>s'. sendToServerWithRetry env cfg request (Fin 0) s
                       = Some (dispatch env request (attempts s + n), s')
                  \<and> attempts s' = attempts s + n + 1))
       \<and> ((\<forall>k. attempts s \<le> k \<and> k < attempts s + j
               \<longrightarrow> (\<exists>e. dispatch env request k = Rejected e))
            \<and> dispatch env request (attempts s + j) = Resolved v \<and> j \<le> n
          \<longrightarrow> (\<exists>s'. sendToServerWithRetry env cfg request (Fin 0) s = Some (Resolved v, s')
                  \<and> attempts s' = attempts s + j + 1))"
proof (intro conjI impI)
  assume f: "\<forall>k. attempts s \<le> k \<and> k \<le> attempts s + n
              \<longrightarrow> (\<exists>e. dispatch env request k = Rejected e)"
  have 1: "\<forall>i<n. (\<exists>e. dispatch env request (attempts s + i) = Rejected e)
             \<and> \<not> exhausted env cfg i"
    using f exhausted_budget(2) [OF assms] by simp
  have 2: "(\<forall>e. dispatch env request (attempts s + n) \<noteq> Rejected e) \<or> exhausted env cfg n"
    using exhausted_budget(1) [OF assms] by simp
  from retry_from_zero [OF 1 2]
  show "\<exists>s'. sendToServerWithRetry env cfg request (Fin 0) s
                       = Some (dispatch env request (attempts s + n), s')
                  \<and> attempts s' = attempts s + n + 1"
    by blast
next
  assume g: "(\<forall>k. attempts s \<le> k \<and> k < attempts s + j
               \<longrightarrow> (\<exists>e. dispatch env request k = Rejected e))
            \<and> dispatch env request (attempts s + j) = Resolved v \<and> j \<le> n"
  have 1: "\<forall>i<j. (\<exists>e. dispatch env request (attempts s + i) = Rejected e)
             \<and> \<not> exhausted env cfg i"
    using g exhausted_budget(2) [OF assms] by simp
  have 2: "(\<forall>e. dispatch env request (attempts s + j) \<noteq> Rejected e) \<or> exhausted env cfg j"
    using g by simp
  from retry_from_zero [OF 1 2] g
  show "\<exists>s'. sendToServerWithRetry env cfg request (Fin 0) s = Some (Resolved v, s')
                  \<and> attempts s' = attempts s + j + 1"
    by auto
qed

lemma dispatch_tools_body:
  "handleJSONResponse sample_parse [tools_body] End = Resolved tools_response"
proof -
  have p: "sample_parse (concat [tools_body]) = Inr tools_response"
    by (simp add: sample_parse_def sample_texts_def sample_text_defs)
  have w: "well_formed_envelope tools_response"
    by (simp add: well_formed_envelope_def tools_response_def phpErrorFields_def)
  show ?thesis
    using handleJSON_parsed [of sample_parse "[tools_body]" tools_response] p w by simp
qed

text \<open>
  With \<^verbatim>\<open>maxRetries = 2\<close> and a server that cannot be reached, three requests; with the
  default policy and a server that fails twice, three requests and its answer.
\<close>

theorem retry_attempts_witness:
  "(\<exists>s'. sendToServerWithRetry (sample_env\<lparr>network := refused\<rparr>)
            (sample_config\<lparr>retry := default_retry\<lparr>maxRetries := Fin 2\<rparr>\<rparr>)
            (Some tools_call_request) (Fin 0) new_proxy
          = Some (Rejected (Error ''connect ECONNREFUSED''), s')
        \<and> attempts s' = 3)
   \<and> (\<exists>s'. sendToServerWithRetry (sample_env\<lparr>network := flaky\<rparr>) sample_config
            (Some tools_call_request) (Fin 0) new_proxy
          = Some (Resolved tools_response, s')
        \<and> attempts s' = 3)"
proof -
  let ?cfg = "sample_config\<lparr>retry := default_retry\<lparr>maxRetries := Fin 2\<rparr>\<rparr>"
  let ?down = "sample_env\<lparr>network := refused\<rparr>"
  let ?flaky = "sample_env\<lparr>network := flaky\<rparr>"
  have b: "retry_budget (maxRetries (retry ?cfg)) = Some 2"
      "retry_budget (maxRetries (retry sample_config)) = Some 3"
    by (simp_all add: retry_budget_def sample_config_def default_retry_def)
  have c: "counts_to ?down 2" "counts_to ?flaky 3"
    by (simp_all add: sample_counts sample_env_def)
  have d: "dispatch ?down (Some tools_call_request) k = Rejected (Error ''connect ECONNREFUSED'')"
    for k by (simp add: dispatch_def refused_def sample_env_def)
  have f: "dispatch ?flaky (Some tools_call_request) k = Rejected (Error ''socket hang up'')"
    if "k < 2" for k using that by (simp add: dispatch_def flaky_def sample_env_def)
  have g: "dispatch ?flaky (Some tools_call_request) (attempts new_proxy + 2)
             = Resolved tools_response"
    by (simp add: dispatch_def flaky_def sample_env_def new_proxy_def dispatch_tools_body
          startsWith_def)
  have a: "attempts new_proxy = 0" by (simp add: new_proxy_def)
  note t1 = retry_attempts [OF b(1) c(1), of new_proxy "Some tools_call_request" 0 JNull]
  note t2 = retry_attempts [OF b(2) c(2), of new_proxy "Some tools_call_request" 2
                              tools_response]
  have w1: "\<exists>s'. sendToServerWithRetry ?down ?cfg (Some tools_call_request) (Fin 0) new_proxy
          = Some (dispatch ?down (Some tools_call_request) (attempts new_proxy + 2), s')
        \<and> attempts s' = attempts new_proxy + 2 + 1"
    using t1 d by blast
  have "\<forall>k. attempts new_proxy \<le> k \<and> k < attempts new_proxy + 2
          \<longrightarrow> (\<exists>e. dispatch ?flaky (Some tools_call_request) k = Rejected e)"
    using f by (simp add: a)
  then have w2: "\<exists>s'. sendToServerWithRetry ?flaky sample_config (Some tools_call_request)
            (Fin 0) new_proxy = Some (Resolved tools_response, s')
        \<and> attempts s' = attempts new_proxy + 2 + 1"
    using t2 g by simp
  show ?thesis
    using w1 w2 by (simp add: d a numeral_3_eq_3)
qed

text \<open>
  When \<^verbatim>\<open>maxRetries\<close> is \<^verbatim>\<open>NaN\<close>, as \<^verbatim>\<open>parseInt\<close> gives it for a text that is not a
  number, no call gives up: if every request is rejected the calls go on for ever.
\<close>

lemma retry_for_ever:
  assumes "maxRetries (retry cfg) = NaN"
    and "\<forall>k. attempts s \<le> k \<longrightarrow> (\<exists>e. dispatch env request k = Rejected e)"
  shows "sendToServerWithRetry env cfg request (Fin 0) s = None"
  using retry_without_end [OF assms(2), of cfg "Fin 0"] assms(1) by simp

text \<open>
  Claim C5 as stated fails for a negative \<^verbatim>\<open>maxRetries\<close>: with \<open>-1\<close> one request is sent,
  not \<open>maxRetries + 1 = 0\<close>.  It fails for the \<^verbatim>\<open>maxRetries\<close> \<^verbatim>\<open>NaN\<close> as well: with a
  server that cannot be reached the call never returns, and no failure is raised.
\<close>

theorem retry_attempts_counterexample:
  "sendToServerWithRetry (sample_env\<lparr>network := refused\<rparr>)
      (sample_config\<lparr>retry := default_retry\<lparr>maxRetries := Fin (- 1)\<rparr>\<rparr>)
      (Some tools_call_request) (Fin 0) new_proxy
     = Some (Rejected (Error ''connect ECONNREFUSED''), new_proxy\<lparr>attempts := 1\<rparr>)
   \<and> number_plus sample_round
        (maxRetries (retry (sample_config\<lparr>retry := default_retry\<lparr>maxRetries := Fin (- 1)\<rparr>\<rparr>)))
        (Fin 1) = Fin 0
   \<and> sendToServerWithRetry (sample_env\<lparr>network := refused\<rparr>)
      (sample_config\<lparr>retry := default_retry\<lparr>maxRetries := NaN\<rparr>\<rparr>)
      (Some tools_call_request) (Fin 0) new_proxy = None"
proof -
  have d: "dispatch (sample_env\<lparr>network := refused\<rparr>) (Some tools_call_request) k
          = Rejected (Error ''connect ECONNREFUSED'')" for k
    by (simp add: dispatch_def refused_def sample_env_def)
  have n: "sendToServerWithRetry (sample_env\<lparr>network := refused\<rparr>)
      (sample_config\<lparr>retry := default_retry\<lparr>maxRetries := NaN\<rparr>\<rparr>)
      (Some tools_call_request) (Fin 0) new_proxy = None"
    by (rule retry_for_ever) (simp_all add: d)
  have e: "sendToServerWithRetry (sample_env\<lparr>network := refused\<rparr>)
      (sample_config\<lparr>retry := default_retry\<lparr>maxRetries := Fin (- 1)\<rparr>\<rparr>)
      (Some tools_call_request) (Fin 0) new_proxy
     = Some (Rejected (Error ''connect ECONNREFUSED''), new_proxy\<lparr>attempts := 1\<rparr>)"
    using d [of "attempts new_proxy"] by (simp add: retry_exhausted new_proxy_def)
  show ?thesis
    unfolding n e by (simp add: sample_round_exact)
qed

section \<open>The id of the line written\<close>

lemma startsWith_nonempty: "startsWith m ''notifications/'' \<Longrightarrow> m \<noteq> []"
  by (auto simp: startsWith_def)

lemma is_notificationD:
  "is_notification parsed \<Longrightarrow>
   \<exists>m. get_prop parsed ''method'' = Inr (Some (JStr m)) \<and> startsWith m ''notifications/''"
  by (simp add: is_notification_def split: sum.splits option.splits json.splits)

lemma handle_parsed_notification:
  assumes "is_notification parsed" and "\<not> ToString_throws requestId"
  shows "handle_parsed env cfg parsed requestId s = Some (None, s)"
proof -
  obtain m where m: "get_prop parsed ''method'' = Inr (Some (JStr m))"
      "startsWith m ''notifications/''"
    using is_notificationD [OF assms(1)] by blast
  obtain line where "handling_request_text env (requestCounter s) parsed requestId = Inr line"
    using handling_request_text_ok [OF m(1) _ assms(2)] by auto
  then show ?thesis
    using m startsWith_nonempty [of m] by (simp add: handle_parsed_def)
qed

lemma handle_parsed_ok:
  assumes "\<not> is_notification parsed" and "requestId \<noteq> JNull"
    and "\<forall>k. dispatch env (Some parsed) k \<noteq> Pending"
    and "retry_ends env cfg (Some parsed) (attempts s)"
    and "get_prop parsed ''method'' = Inr (Some (JStr ''initialize''))
         \<longrightarrow> (\<forall>k. retry_ends env cfg (Some initNotification) k)"
  shows "\<exists>res. handle_parsed env cfg parsed requestId s = Some res
            \<and> step_ok requestId s res"
proof (cases "handling_request_text env (requestCounter s) parsed requestId")
  case (Inl e)
  then show ?thesis by (simp add: handle_parsed_def step_ok_def)
next
  case line: (Inr line)
  show ?thesis
  proof (cases "get_prop parsed ''method''")
    case (Inl e)
    with line show ?thesis by (simp add: handle_parsed_def step_ok_def)
  next
    case (Inr requested)
    have "requested = Some (JStr ''initialize'')
         \<longrightarrow> (\<forall>k. retry_ends env cfg (Some initNotification) k)"
      using assms(5) Inr by simp
    note ok = handle_request_ok [OF assms(2,3,4) this]
    show ?thesis
    proof (cases requested)
      case None
      with Inr line ok show ?thesis by (simp add: handle_parsed_def)
    next
      case (Some v)
      show ?thesis
      proof (cases v)
        case (JStr m)
        with Some Inr assms(1) have "\<not> startsWith m ''notifications/''"
          by (simp add: is_notification_def)
        with JStr Some Inr line ok show ?thesis by (simp add: handle_parsed_def)
      qed (use Some Inr line ok in \<open>auto simp add: handle_parsed_def step_ok_def\<close>)
    qed
  qed
qed

text \<open>
  Claim C4, as the code has it.  A notification is a request whose method is a string
  that starts with \<^verbatim>\<open>notifications/\<close>, whatever its id: nothing is written for it,
  provided that its id has a string for the log.  For every other request with an id
  that is defined and not \<^verbatim>\<open>null\<close>, if the calls for it end and no request sent for it
  stays without an answer for ever (and, for \<^verbatim>\<open>initialize\<close>, the calls for the
  notification that follows end), the handling ends with exactly one envelope written,
  which has that id; this holds for every state of the cache, every network and every
  number of retries.
\<close>

theorem id_fidelity:
  assumes "JSON_parse env message = Inr parsed"
  shows "(is_notification parsed \<and> \<not> ToString_throws (request_id parsed) \<longrightarrow>
            (\<exists>s'. handleIncomingMessage env cfg message s = Some s' \<and> stdout s' = stdout s))
       \<and> (\<not> is_notification parsed \<and> get_prop parsed ''id'' = Inr (Some i) \<and> i \<noteq> JNull
            \<and> (\<forall>k. dispatch env (Some parsed) k \<noteq> Pending)
            \<and> retry_ends env cfg (Some parsed) (attempts s)
            \<and> (get_prop parsed ''method'' = Inr (Some (JStr ''initialize''))
                 \<longrightarrow> (\<forall>k. retry_ends env cfg (Some initNotification) k)) \<longrightarrow>
            (\<exists>s' envelope. handleIncomingMessage env cfg message s = Some s'
                        \<and> stdout s' = stdout s @ [Some (JObj envelope)]
                        \<and> map_of envelope ''id'' = Some i))"
proof (intro conjI impI)
  assume n: "is_notification parsed \<and> \<not> ToString_throws (request_id parsed)"
  then obtain m where m: "get_prop parsed ''method'' = Inr (Some (JStr m))"
    using is_notificationD by blast
  obtain i where i: "get_prop parsed ''id'' = Inr i"
    using get_prop_object [OF m] by blast
  have rid: "(case i of None \<Rightarrow> JNull | Some v \<Rightarrow> v) = request_id parsed"
    using i by (simp add: request_id_def split: option.splits)
  show "\<exists>s'. handleIncomingMessage env cfg message s = Some s' \<and> stdout s' = stdout s"
    using assms i n handle_parsed_notification [of parsed "request_id parsed"]
    by (simp add: handleIncomingMessage_def rid)
next
  assume a: "\<not> is_notification parsed \<and> get_prop parsed ''id'' = Inr (Some i) \<and> i \<noteq> JNull
            \<and> (\<forall>k. dispatch env (Some parsed) k \<noteq> Pending)
            \<and> retry_ends env cfg (Some parsed) (attempts s)
            \<and> (get_prop parsed ''method'' = Inr (Some (JStr ''initialize''))
                 \<longrightarrow> (\<forall>k. retry_ends env cfg (Some initNotification) k))"
  define s0 where "s0 = s\<lparr>requestCounter := requestCounter s + 1\<rparr>"
  have "retry_ends env cfg (Some parsed) (attempts s0)" using a by (simp add: s0_def)
  then obtain ex s' where h: "handle_parsed env cfg parsed i s0 = Some (ex, s')"
    and ok: "step_ok i s0 (ex, s')"
    using handle_parsed_ok [of parsed i env cfg s0] a by auto
  have e: "handleIncomingMessage env cfg message s
      = Some (case ex of None \<Rightarrow> s'
         | Some error \<Rightarrow> s'\<lparr>stdout := stdout s' @ [Some (errorResponse i error)]\<rparr>)"
    using assms a h by (simp add: handleIncomingMessage_def s0_def split: option.splits)
  have "writes_with_id i s (case ex of None \<Rightarrow> s'
         | Some error \<Rightarrow> s'\<lparr>stdout := stdout s' @ [Some (errorResponse i error)]\<rparr>)"
  proof (cases ex)
    case None
    with ok show ?thesis by (simp add: step_ok_def writes_with_id_def s0_def)
  next
    case (Some error)
    with ok show ?thesis
      by (simp add: step_ok_def writes_with_id_def s0_def errorResponse_def)
  qed
  then show "\<exists>s' envelope. handleIncomingMessage env cfg message s = Some s'
                        \<and> stdout s' = stdout s @ [Some (JObj envelope)]
                        \<and> map_of envelope ''id'' = Some i"
    using e by (auto simp add: writes_with_id_def)
qed

lemma dispatch_sample:
  "dispatch sample_env (Some r) k = Resolved tools_response"
  using dispatch_tools_body by (simp add: dispatch_def sample_env_def startsWith_def)

lemma no_id_written:
  "\<exists>s'. handleIncomingMessage sample_env sample_config no_id_line new_proxy = Some s'
       \<and> stdout s' = [Some tools_response]"
proof -
  have p: "JSON_parse sample_env no_id_line = Inr no_id_request"
    by (simp add: sample_env_def parse_lines)
  have f: "forwarded sample_env sample_config no_id_request new_proxy"
    using sample_key(2) [of "network sample_env"]
    by (simp add: forwarded_def request_id_def cache_answers_def
          getCachedResponse_def new_proxy_def)
       (simp add: no_id_request_def startsWith_def)
  have r: "resolves_after sample_env sample_config (Some no_id_request) (attempts new_proxy) 0
             tools_response"
    by (simp add: resolves_after_def dispatch_sample)
  have m: "get_prop no_id_request ''method'' \<noteq> Inr (Some (JStr ''initialize''))"
    by (simp add: no_id_request_def)
  have i: "request_id no_id_request = JNull"
    by (simp add: request_id_def no_id_request_def)
  show ?thesis
    using incoming_forwarded [OF p f r] m by (simp add: i new_proxy_def)
qed

lemma progress_is_notification: "is_notification progress_request"
  by (simp add: is_notification_def progress_request_def startsWith_def)

text \<open>
  A notification, and the request \<^verbatim>\<open>tools/call\<close> with id 7 to a server that fails twice
  and then answers with id 42.
\<close>

theorem id_fidelity_witness:
  "(\<exists>s'. handleIncomingMessage sample_env sample_config progress_line new_proxy = Some s'
        \<and> stdout s' = [])
   \<and> (\<exists>s' envelope.
        handleIncomingMessage (sample_env\<lparr>network := flaky\<rparr>) sample_config
          tools_call_line new_proxy = Some s'
        \<and> stdout s' = [Some (JObj envelope)]
        \<and> map_of envelope ''id'' = Some (JNum 7))"
proof -
  let ?flaky = "sample_env\<lparr>network := flaky\<rparr>"
  have p: "JSON_parse sample_env progress_line = Inr progress_request"
    "JSON_parse ?flaky tools_call_line = Inr tools_call_request"
    by (simp_all add: sample_env_def parse_lines)
  have t: "\<not> ToString_throws (request_id progress_request)"
    by (simp add: request_id_def progress_request_def)
  have n: "\<not> is_notification tools_call_request"
    "get_prop tools_call_request ''id'' = Inr (Some (JNum 7))"
    "get_prop tools_call_request ''method'' \<noteq> Inr (Some (JStr ''initialize''))"
    by (simp_all add: is_notification_def tools_call_request_def startsWith_def)
  have d: "\<forall>k. dispatch ?flaky (Some tools_call_request) k \<noteq> Pending"
    using dispatch_tools_body by (simp add: dispatch_def flaky_def sample_env_def startsWith_def)
  have "\<forall>e. dispatch ?flaky (Some tools_call_request) (attempts new_proxy + 2) \<noteq> Rejected e"
    using dispatch_tools_body
    by (simp add: dispatch_def flaky_def sample_env_def startsWith_def new_proxy_def)
  then have e: "retry_ends ?flaky sample_config (Some tools_call_request) (attempts new_proxy)"
    unfolding retry_ends_def by blast
  have s: "stdout new_proxy = []" by (simp add: new_proxy_def)
  have w1: "\<exists>s'. handleIncomingMessage sample_env sample_config progress_line new_proxy
                    = Some s' \<and> stdout s' = stdout new_proxy"
    using id_fidelity [OF p(1), where cfg = sample_config and s = new_proxy and i = JNull]
          progress_is_notification t
    by blast
  have w2: "\<exists>s' envelope.
        handleIncomingMessage ?flaky sample_config tools_call_line new_proxy = Some s'
        \<and> stdout s' = stdout new_proxy @ [Some (JObj envelope)]
        \<and> map_of envelope ''id'' = Some (JNum 7)"
    using id_fidelity [OF p(2), where cfg = sample_config and s = new_proxy and i = "JNum 7"]
          n d e
    by blast
  show ?thesis using w1 w2 by (simp only: s append_Nil)
qed

text \<open>
  Claim C4 as stated fails twice: for the request \<^verbatim>\<open>tools/list\<close> without id an envelope
  is written, and for the request \<^verbatim>\<open>notifications/progress\<close> with id 42 none is.
\<close>

theorem id_fidelity_counterexample:
  "sample_parse no_id_line = Inr no_id_request
   \<and> get_prop no_id_request ''id'' = Inr None
   \<and> handleIncomingMessage sample_env sample_config no_id_line new_proxy \<noteq> None
   \<and> stdout (the (handleIncomingMessage sample_env sample_config no_id_line new_proxy))
       = [Some tools_response]
   \<and> sample_parse progress_line = Inr progress_request
   \<and> get_prop progress_request ''id'' = Inr (Some (JNum 42))
   \<and> handleIncomingMessage sample_env sample_config progress_line new_proxy \<noteq> None
   \<and> stdout (the (handleIncomingMessage sample_env sample_config progress_line new_proxy))
       = []"
proof -
  have t: "\<not> ToString_throws (JNum 42)" by simp
  have "handle_parsed sample_env sample_config progress_request (JNum 42)
          (new_proxy\<lparr>requestCounter := requestCounter new_proxy + 1\<rparr>)
        = Some (None, new_proxy\<lparr>requestCounter := requestCounter new_proxy + 1\<rparr>)"
    using handle_parsed_notification [OF progress_is_notification t] .
  then have "\<exists>s'. handleIncomingMessage sample_env sample_config progress_line new_proxy = Some s'
          \<and> stdout s' = []"
    by (simp add: handleIncomingMessage_def sample_env_def parse_lines)
       (simp add: progress_request_def new_proxy_def)
  then show ?thesis
    using no_id_written
    by (auto simp add: parse_lines) (simp_all add: no_id_request_def progress_request_def)
qed

text \<open>
  The proviso on the id of a notification is needed: for an id that is an object with a
  property \<^verbatim>\<open>toString\<close> the first call of the log throws, and the line of the error is
  written.
\<close>

lemma notification_without_string:
  "is_notification hostile_request
   \<and> (\<exists>s'. handleIncomingMessage sample_env sample_config hostile_line new_proxy = Some s'
          \<and> stdout s' = [Some (errorResponse (JObj [(''toString'', JNum 0)])
                                 (TypeError ''Cannot convert object to primitive value''))])"
proof -
  have "handling_request_text sample_env c hostile_request (JObj [(''toString'', JNum 0)])
          = Inl (TypeError ''Cannot convert object to primitive value'')" for c
    by (simp add: handling_request_text_def hostile_request_def bindE_def or_default_def
          ToString_def)
  then have "handle_parsed sample_env sample_config hostile_request
               (JObj [(''toString'', JNum 0)]) s
             = Some (Some (TypeError ''Cannot convert object to primitive value''), s)" for s
    by (simp add: handle_parsed_def)
  then have "\<exists>s'. handleIncomingMessage sample_env sample_config hostile_line new_proxy = Some s'
          \<and> stdout s' = [Some (errorResponse (JObj [(''toString'', JNum 0)])
                                 (TypeError ''Cannot convert object to primitive value''))]"
    by (simp add: handleIncomingMessage_def sample_env_def parse_lines)
       (simp add: hostile_request_def new_proxy_def)
  moreover have "is_notification hostile_request"
    by (simp add: is_notification_def hostile_request_def startsWith_def)
  ultimately show ?thesis by simp
qed

section \<open>What the cache holds\<close>

text \<open>
  Claim C9, as the code has it.  On a miss, the cache holds under the key a reference to
  the response as the dispatcher resolved it, and the line written is a new object, the
  copy of that response with the id of the request; on a hit, the line written is a new
  object, the copy of the cached response with the id of the request, and the two maps
  of the cache and the cached object are as before.  The cached response keeps the id
  that the server gave it.
\<close>

theorem cache_entry_as_received:
  "(sendToServerWithRetry env cfg (Some parsed) (Fin 0) s = Some (Resolved v, s1) \<longrightarrow>
      (\<exists>s'. handle_cache_miss env cfg parsed requestId cacheKey s = Some (None, s')
          \<and> toolCache s' cacheKey = Some (length (store s))
          \<and> deref s' (length (store s)) = Some v
          \<and> stdout s' = stdout s @ [Some (if requestId \<noteq> JNull
                                      then JObj (set_prop ''id'' requestId (spread (Some v)))
                                      else v)]))
   \<and> (deref s c = Some cv \<longrightarrow>
      (\<exists>s'. handle_cache_hit requestId c s = (None, s')
          \<and> toolCache s' = toolCache s \<and> cacheTimestamps s' = cacheTimestamps s
          \<and> deref s' c = Some cv
          \<and> stdout s' = stdout s @ [Some (JObj (if requestId \<noteq> JNull
                                      then set_prop ''id'' requestId (spread (Some cv))
                                      else spread (Some cv)))]))"
proof (intro conjI impI)
  assume "sendToServerWithRetry env cfg (Some parsed) (Fin 0) s = Some (Resolved v, s1)"
  from handle_cache_miss_effect [OF this, of requestId cacheKey]
  show "\<exists>s'. handle_cache_miss env cfg parsed requestId cacheKey s = Some (None, s')
          \<and> toolCache s' cacheKey = Some (length (store s))
          \<and> deref s' (length (store s)) = Some v
          \<and> stdout s' = stdout s @ [Some (if requestId \<noteq> JNull
                                      then JObj (set_prop ''id'' requestId (spread (Some v)))
                                      else v)]"
    by blast
next
  assume "deref s c = Some cv"
  from handle_cache_hit_effect [OF this, of requestId]
  show "\<exists>s'. handle_cache_hit requestId c s = (None, s')
          \<and> toolCache s' = toolCache s \<and> cacheTimestamps s' = cacheTimestamps s
          \<and> deref s' c = Some cv
          \<and> stdout s' = stdout s @ [Some (JObj (if requestId \<noteq> JNull
                                      then set_prop ''id'' requestId (spread (Some cv))
                                      else spread (Some cv)))]"
    by blast
qed

text \<open>A miss for a request with id 42, and a hit for a request with id 43.\<close>

theorem cache_entry_as_received_witness:
  "(\<exists>s'. handle_cache_miss sample_env sample_config tools_list_request (JNum 42)
            ''tools/list_{}'' new_proxy = Some (None, s')
        \<and> toolCache s' ''tools/list_{}'' = Some 0
        \<and> deref s' 0 = Some tools_response)
   \<and> stdout (snd (handle_cache_hit (JNum 43) 0 (new_proxy\<lparr>store := [tools_response]\<rparr>)))
       = [Some (JObj [(''jsonrpc'', JStr ''2.0''), (''id'', JNum 43),
                      (''result'', JObj [(''tools'', JArr [])])])]
   \<and> deref (snd (handle_cache_hit (JNum 43) 0 (new_proxy\<lparr>store := [tools_response]\<rparr>))) 0
       = Some tools_response"
proof -
  have r: "sendToServerWithRetry sample_env sample_config (Some tools_list_request) (Fin 0)
             new_proxy
             = Some (Resolved tools_response, new_proxy\<lparr>attempts := attempts new_proxy + 1\<rparr>)"
    by (simp add: retry_resolved dispatch_sample)
  have d: "deref (new_proxy\<lparr>store := [tools_response]\<rparr>) 0 = Some tools_response"
    by (simp add: deref_def)
  have l: "length (store new_proxy) = 0" by (simp add: new_proxy_def)
  note t1 = cache_entry_as_received [where env = sample_env and cfg = sample_config
            and parsed = tools_list_request and s = new_proxy and v = tools_response
            and ?s1.0 = "new_proxy\<lparr>attempts := attempts new_proxy + 1\<rparr>"
            and requestId = "JNum 42" and cacheKey = "''tools/list_{}''"]
  note t2 = cache_entry_as_received [where s = "new_proxy\<lparr>store := [tools_response]\<rparr>"
            and c = 0 and cv = tools_response and requestId = "JNum 43"]
  have w1: "\<exists>s'. handle_cache_miss sample_env sample_config tools_list_request (JNum 42)
            ''tools/list_{}'' new_proxy = Some (None, s')
        \<and> toolCache s' ''tools/list_{}'' = Some 0
        \<and> deref s' 0 = Some tools_response"
    using t1 r by (simp only: l) blast
  have w2: "\<exists>s'. handle_cache_hit (JNum 43) 0 (new_proxy\<lparr>store := [tools_response]\<rparr>)
                    = (None, s')
          \<and> deref s' 0 = Some tools_response
          \<and> stdout s' = stdout (new_proxy\<lparr>store := [tools_response]\<rparr>)
               @ [Some (JObj (if JNum 43 \<noteq> JNull
                                      then set_prop ''id'' (JNum 43) (spread (Some tools_response))
                                      else spread (Some tools_response)))]"
    using t2 d by blast
  show ?thesis
    using w1 w2 by (auto simp add: new_proxy_def tools_response_def)
qed

text \<open>
  Claim C9 as stated fails: after the request \<^verbatim>\<open>tools/list\<close> with id 42, answered by the
  server with id 42, the entry of the cache has the id 42 of that caller.
\<close>

theorem cache_entry_as_received_counterexample:
  "sample_parse tools_list_line = Inr tools_list_request
   \<and> get_prop tools_list_request ''id'' = Inr (Some (JNum 42))
   \<and> handleIncomingMessage sample_env sample_config tools_list_line new_proxy \<noteq> None
   \<and> toolCache (the (handleIncomingMessage sample_env sample_config tools_list_line new_proxy))
        ''tools/list_{}'' = Some 0
   \<and> deref (the (handleIncomingMessage sample_env sample_config tools_list_line new_proxy)) 0
        = Some tools_response
   \<and> get_prop tools_response ''id'' = Inr (Some (JNum 42))"
proof -
  have p: "JSON_parse sample_env tools_list_line = Inr tools_list_request"
    by (simp add: sample_env_def parse_lines)
  have k: "getCacheKey sample_env tools_list_request = Inr ''tools/list_{}''"
    using sample_key(1) [of "network sample_env"] by simp
  have c: "shouldCache sample_config tools_list_request = Inr True"
    by (simp add: shouldCache_def tools_list_request_def bindE_def sample_config_def)
  have m: "get_prop tools_list_request ''method'' = Inr (Some (JStr ''tools/list''))"
    "get_prop tools_list_request ''id'' = Inr (Some (JNum 42))"
    by (simp_all add: tools_list_request_def)
  have t: "handling_request_text sample_env n tools_list_request (JNum 42)
             = Inr (''['' @ digits n @ ''] Handling request: tools/list (id: ''
                    @ String_of sample_env (Some (JNum 42)) @ '')'')" for n
    by (simp add: handling_request_text_def m bindE_def or_default_def ToString_def)
  have "\<exists>s'. handleIncomingMessage sample_env sample_config tools_list_line new_proxy = Some s'
          \<and> toolCache s' ''tools/list_{}'' = Some 0
          \<and> deref s' 0 = Some tools_response"
    by (simp add: handleIncomingMessage_def p m handle_parsed_def t startsWith_def
          handle_request_def c handle_cacheable_def k read_clock_def getCachedResponse_def
          new_proxy_def handle_cache_miss_def retry_resolved dispatch_sample alloc_def
          setCachedResponse_def with_request_id_def write_stdout_def deref_def Let_def)
  then show ?thesis
    by (auto simp add: parse_lines m) (simp add: tools_response_def)
qed

section \<open>The entry points for one request\<close>

lemma optional_id_total:
  "optional_id request = Inr (case request of
       Some (JObj kvs) \<Rightarrow> map_of kvs ''id'' | _ \<Rightarrow> None)"
  by (simp add: optional_id_def split: option.splits json.splits)

lemma or_default_request_id:
  "or_default (case request of Some (JObj kvs) \<Rightarrow> map_of kvs ''id'' | _ \<Rightarrow> None) JNull
     = request_id_or_null request"
  by (simp add: or_default_def request_id_or_null_def split: option.splits json.splits)

lemma entry_point_rejected:
  assumes "sendToServerWithRetry env cfg request (Fin 0) s = Some (Rejected error, s')"
  shows "proxyRequest env cfg request s
           = Some (Resolved (errorResponse (request_id_or_null request) error), s')"
    and "handleHttpRequest env cfg request s
           = Some (Resolved (errorResponse (request_id_or_null request) error), s')"
  using assms
  by (simp_all add: proxyRequest_def handleHttpRequest_def optional_id_total
        or_default_request_id)

lemma entry_point_settled:
  assumes "sendToServerWithRetry env cfg request (Fin 0) s = Some (r, s')"
    and "\<forall>e. r \<noteq> Rejected e"
  shows "proxyRequest env cfg request s = Some (r, s')"
    and "handleHttpRequest env cfg request s = Some (r, s')"
  using assms
  by (cases r; simp add: proxyRequest_def handleHttpRequest_def)+

lemma entry_point_for_ever:
  assumes "sendToServerWithRetry env cfg request (Fin 0) s = None"
  shows "proxyRequest env cfg request s = None"
    and "handleHttpRequest env cfg request s = None"
  using assms by (simp_all add: proxyRequest_def handleHttpRequest_def)

text \<open>
  Claim C10.  \<^verbatim>\<open>proxyRequest\<close> and \<^verbatim>\<open>handleHttpRequest\<close> never reject; when the retried
  dispatch rejects they resolve with the envelope of code \<open>-32603\<close> and message
  \<^verbatim>\<open>Internal error\<close>, whose id is the id of the request when that is truthy and
  \<^verbatim>\<open>null\<close> otherwise; and they return whenever the retried dispatch does.
\<close>

theorem entry_points_total:
  "(\<forall>e s'. proxyRequest env cfg request s \<noteq> Some (Rejected e, s'))
   \<and> (\<forall>e s'. handleHttpRequest env cfg request s \<noteq> Some (Rejected e, s'))
   \<and> (sendToServerWithRetry env cfg request (Fin 0) s = Some (Rejected error, s1) \<longrightarrow>
        proxyRequest env cfg request s
          = Some (Resolved (JObj [(''jsonrpc'', JStr ''2.0''),
              (''id'', request_id_or_null request),
              (''error'', JObj [(''code'', JNum (- 32603)),
                 (''message'', JStr ''Internal error''),
                 (''data'', JStr (exn_message error))])]), s1)
      \<and> handleHttpRequest env cfg request s
          = Some (Resolved (JObj [(''jsonrpc'', JStr ''2.0''),
              (''id'', request_id_or_null request),
              (''error'', JObj [(''code'', JNum (- 32603)),
                 (''message'', JStr ''Internal error''),
                 (''data'', JStr (exn_message error))])]), s1))
   \<and> (proxyRequest env cfg request s = None
        \<longleftrightarrow> sendToServerWithRetry env cfg request (Fin 0) s = None)
   \<and> (handleHttpRequest env cfg request s = None
        \<longleftrightarrow> sendToServerWithRetry env cfg request (Fin 0) s = None)"
proof (cases "sendToServerWithRetry env cfg request (Fin 0) s")
  case None
  then show ?thesis using entry_point_for_ever [OF None] by simp
next
  case (Some y)
  obtain r s' where y: "y = (r, s')" by (cases y)
  show ?thesis
  proof (cases "\<exists>e. r = Rejected e")
    case True
    then obtain e where "r = Rejected e" by blast
    then show ?thesis
      using entry_point_rejected [of env cfg request s e s'] Some y
      by (simp add: errorResponse_def)
  next
    case False
    then show ?thesis
      using entry_point_settled [of env cfg request s r s'] Some y by simp
  qed
qed

text \<open>
  A server that cannot be reached: the id 0 becomes \<^verbatim>\<open>null\<close>, the id 7 stays.
\<close>

theorem entry_points_total_witness:
  "(\<exists>s'. proxyRequest (sample_env\<lparr>network := refused\<rparr>) sample_config
            (Some zero_id_request) new_proxy
          = Some (Resolved (JObj [(''jsonrpc'', JStr ''2.0''), (''id'', JNull),
               (''error'', JObj [(''code'', JNum (- 32603)),
                  (''message'', JStr ''Internal error''),
                  (''data'', JStr ''connect ECONNREFUSED'')])]), s'))
   \<and> (\<exists>s'. handleHttpRequest (sample_env\<lparr>network := refused\<rparr>) sample_config
            (Some tools_call_request) new_proxy
          = Some (Resolved (JObj [(''jsonrpc'', JStr ''2.0''), (''id'', JNum 7),
               (''error'', JObj [(''code'', JNum (- 32603)),
                  (''message'', JStr ''Internal error''),
                  (''data'', JStr ''connect ECONNREFUSED'')])]), s'))"
proof -
  let ?down = "sample_env\<lparr>network := refused\<rparr>"
  have d: "dispatch ?down (Some r) k = Rejected (Error ''connect ECONNREFUSED'')" for r k
    by (simp add: dispatch_def refused_def sample_env_def)
  have n: "nearest_number ?down = sample_round" by (simp add: sample_env_def)
  have f: "\<exists>s'. sendToServerWithRetry ?down sample_config (Some r) (Fin 0) new_proxy
             = Some (Rejected (Error ''connect ECONNREFUSED''), s')" for r
  proof -
    have 1: "\<forall>i<3. (\<exists>e. dispatch ?down (Some r) (attempts new_proxy + i) = Rejected e)
               \<and> \<not> exhausted ?down sample_config i"
      using sample_not_exhausted [OF n] by (simp add: d)
    have "retry_budget (maxRetries (retry sample_config)) = Some 3"
      by (simp add: retry_budget_def sample_config_def default_retry_def)
    moreover have "counts_to ?down 3" using sample_counts [OF n] by simp
    ultimately have "exhausted ?down sample_config 3" by (rule exhausted_budget(1))
    then have 2: "(\<forall>e. dispatch ?down (Some r) (attempts new_proxy + 3) \<noteq> Rejected e)
               \<or> exhausted ?down sample_config 3" by simp
    from retry_from_zero [OF 1 2] show ?thesis by (auto simp add: d)
  qed
  obtain s1 where s1: "sendToServerWithRetry ?down sample_config (Some zero_id_request) (Fin 0)
      new_proxy = Some (Rejected (Error ''connect ECONNREFUSED''), s1)"
    using f by blast
  obtain s2 where s2: "sendToServerWithRetry ?down sample_config (Some tools_call_request) (Fin 0)
      new_proxy = Some (Rejected (Error ''connect ECONNREFUSED''), s2)"
    using f by blast
  have i0: "request_id_or_null (Some zero_id_request) = JNull"
    by (simp add: request_id_or_null_def zero_id_request_def)
  have i7: "request_id_or_null (Some tools_call_request) = JNum 7"
    by (simp add: request_id_or_null_def tools_call_request_def)
  have m: "exn_message (Error ''connect ECONNREFUSED'') = ''connect ECONNREFUSED''"
    by simp
  note t1 = entry_points_total [where env = ?down and cfg = sample_config
      and request = "Some zero_id_request" and s = new_proxy
      and error = "Error ''connect ECONNREFUSED''" and ?s1.0 = s1]
  note t2 = entry_points_total [where env = ?down and cfg = sample_config
      and request = "Some tools_call_request" and s = new_proxy
      and error = "Error ''connect ECONNREFUSED''" and ?s1.0 = s2]
  show ?thesis
    using t1 t2 s1 s2 by (simp only: i0 i7 m) blast
qed

section \<open>The first event of a stream\<close>

































end
